theory Spec2Isabelle
  imports Complex_Main
begin

section \<open>Module constants (src/ariston/__init__.py, lines 68-82)\<close>

definition ARISTON_URL :: string where
  "ARISTON_URL = ''https://www.ariston-net.remotethermo.com''"

definition DEFAULT_MAX_RETRIES :: nat where
  "DEFAULT_MAX_RETRIES = 1"

definition DEFAULT_TIME :: string where
  "DEFAULT_TIME = ''00:00''"

definition HTTP_RETRY_INTERVAL :: nat where
  "HTTP_RETRY_INTERVAL = 45"

definition HTTP_RETRY_INTERVAL_DOWN :: nat where
  "HTTP_RETRY_INTERVAL_DOWN = 80"

definition HTTP_SET_INTERVAL :: nat where
  "HTTP_SET_INTERVAL = HTTP_RETRY_INTERVAL_DOWN * 2"

definition MAX_ERRORS :: nat where
  "MAX_ERRORS = 4"

definition MAX_ERRORS_TIMER_EXTEND :: nat where
  "MAX_ERRORS_TIMER_EXTEND = 2"

definition TIMER_SET_LOCK :: rat where
  "TIMER_SET_LOCK = 25"

section \<open>Exceptions\<close>

text \<open>
  Every exception the module can raise is a value. \<open>CommError\<close> and \<open>LoginError\<close> are the
  two exceptions of the package; \<open>RequestError\<close> stands for an exception of the HTTP library
  that the code does not convert (anything but a read timeout during login or during the
  write); \<open>IndexError\<close>, \<open>KeyError\<close> and \<open>ValueError\<close> are Python's own.
\<close>

datatype error = CommError | LoginError | RequestError | IndexError | KeyError | ValueError

text \<open>
  Modelled from the spec: the module \<open>exceptions.py\<close> is not part of the sources. The poll loop
  catches \<open>AristonError\<close> and the spec counts every communication and login error of a poll
  as a failure, so \<open>CommError\<close> and \<open>LoginError\<close> are the subclasses of \<open>AristonError\<close>.
\<close>

definition is_AristonError :: "error \<Rightarrow> bool" where
  "is_AristonError e = (e = CommError \<or> e = LoginError)"

section \<open>Python's string, list and number primitives\<close>

text \<open>
  Numbers of the JSON document and readings of \<open>time.time()\<close> are rationals: the code only
  compares them, and Python compares integers and floats by their exact values.
\<close>

type_synonym number = rat

text \<open>\<open>xs[i]\<close> for a literal index \<open>i \<ge> 0\<close>: raises \<open>IndexError\<close> out of range.\<close>

definition index :: "'a list \<Rightarrow> nat \<Rightarrow> error + 'a" where
  "index xs i = (if i < length xs then Inr (xs ! i) else Inl IndexError)"

text \<open>Sequencing of two steps, the second of which runs only if the first did not raise.\<close>

definition after :: "error + 'a \<Rightarrow> ('a \<Rightarrow> error + 'b) \<Rightarrow> error + 'b" where
  "after r f = (case r of Inl e \<Rightarrow> Inl e | Inr x \<Rightarrow> f x)"

text \<open>\<open>s.split(c)\<close> for a separator of one character: never empty, one more piece than
  there are separators.\<close>

fun split :: "char \<Rightarrow> string \<Rightarrow> string list" where
  "split c [] = [[]]"
| "split c (x # xs) =
     (if x = c then [] # split c xs
      else (case split c xs of [] \<Rightarrow> [[x]] | w # ws \<Rightarrow> (x # w) # ws))"

text \<open>\<open>s.startswith(p)\<close>.\<close>

fun startswith :: "string \<Rightarrow> string \<Rightarrow> bool" where
  "startswith s [] = True"
| "startswith [] (p # ps) = False"
| "startswith (x # xs) (p # ps) = (x = p \<and> startswith xs ps)"

text \<open>\<open>s.lower()\<close>, on ASCII letters.\<close>

definition lower_char :: "char \<Rightarrow> char" where
  "lower_char c =
     (case map_of (zip ''ABCDEFGHIJKLMNOPQRSTUVWXYZ'' ''abcdefghijklmnopqrstuvwxyz'') c of
        Some l \<Rightarrow> l
      | None \<Rightarrow> c)"

definition lower :: "string \<Rightarrow> string" where
  "lower s = map lower_char s"

text \<open>
  \<open>int(s)\<close> for a string: white space around the number is dropped (on an ASCII string
  the characters 9 to 13 and the space), a sign may come first, then decimal digits,
  where a single underscore may stand between two digits; anything else raises
  \<open>ValueError\<close>. Characters are bytes here, so digits and spaces outside ASCII are not
  recognised, and the interpreter's limit on the number of digits is not modelled.
\<close>

definition is_digit :: "char \<Rightarrow> bool" where
  "is_digit c = (48 \<le> (of_char c :: nat) \<and> (of_char c :: nat) \<le> 57)"

definition digit_value :: "char \<Rightarrow> nat" where
  "digit_value c = of_char c - 48"

definition is_space :: "char \<Rightarrow> bool" where
  "is_space c = (let n = (of_char c :: nat) in (9 \<le> n \<and> n \<le> 13) \<or> n = 32)"

definition strip :: "string \<Rightarrow> string" where
  "strip s = rev (dropWhile is_space (rev (dropWhile is_space s)))"

fun digits :: "nat \<Rightarrow> string \<Rightarrow> error + nat" where
  "digits acc [] = Inr acc"
| "digits acc [c] = (if is_digit c then Inr (10 * acc + digit_value c) else Inl ValueError)"
| "digits acc (c # d # cs) =
     (if is_digit c then digits (10 * acc + digit_value c) (d # cs)
      else if c = CHR ''_'' \<and> is_digit d then digits (10 * acc + digit_value d) cs
      else Inl ValueError)"

definition unsigned :: "string \<Rightarrow> error + nat" where
  "unsigned s =
     (case s of
        [] \<Rightarrow> Inl ValueError
      | c # cs \<Rightarrow> if is_digit c then digits (digit_value c) cs else Inl ValueError)"

definition py_int :: "string \<Rightarrow> error + int" where
  "py_int s =
     (case strip s of
        [] \<Rightarrow> Inl ValueError
      | c # cs \<Rightarrow>
          if c = CHR ''-'' then after (unsigned cs) (\<lambda>n. Inr (- int n))
          else if c = CHR ''+'' then after (unsigned cs) (\<lambda>n. Inr (int n))
          else after (unsigned (c # cs)) (\<lambda>n. Inr (int n)))"

text \<open>\<open>str(n)\<close> for an integer: decimal digits, with a minus sign for a negative number.\<close>

definition digit_char :: "nat \<Rightarrow> char" where
  "digit_char n = ''0123456789'' ! n"

function str_nat :: "nat \<Rightarrow> string" where
  "str_nat n = (if n < 10 then [digit_char n] else str_nat (n div 10) @ [digit_char (n mod 10)])"
  by pat_completeness auto
termination
  by (relation "measure (\<lambda>n. n)") auto

declare str_nat.simps [simp del]

definition str_int :: "int \<Rightarrow> string" where
  "str_int i = (if i < 0 then CHR ''-'' # str_nat (nat (- i)) else str_nat (nat i))"

text \<open>\<open>round(x)\<close> for a float: to the nearest integer, a tie to the even one.\<close>

definition py_round :: "number \<Rightarrow> int" where
  "py_round x =
     (let f = \<lfloor>x\<rfloor>; r = x - of_int f
      in if r < 1 / 2 then f else if 1 / 2 < r then f + 1 else if even f then f else f + 1)"

section \<open>The state of an \<open>AristonChecker\<close>\<close>

text \<open>
  The paths of the fetched document that the module reads: \<open>data["zone"]\<close>,
  \<open>data["mode"]\<close>, \<open>data["dhwTemp"]\<close> (value, min, max), \<open>data["zone"]["comfortTemp"]\<close>
  (value, min, max) and \<open>data["zone"]["mode"]["value"]\<close>.
\<close>

datatype entry =
    E_zone | E_mode
  | E_dhwTemp_value | E_dhwTemp_min | E_dhwTemp_max
  | E_comfortTemp_value | E_comfortTemp_min | E_comfortTemp_max
  | E_zone_mode_value

text \<open>
  The part of the fetched document the module reads and writes: the numbers at these
  paths, \<open>data["zone"]["derogaUntil"]\<close> (\<open>None\<close> when the entry is missing or not a string),
  and \<open>lacks\<close>, which holds of a path when one of its keys is missing, so that reading it
  raises \<open>KeyError\<close> (the number of the record at such a path means nothing). The cached
  document is \<open>None\<close> when it is the empty dictionary \<open>{}\<close>.
\<close>

record snapshot =
  mode :: number
  dhwTemp_value :: number
  dhwTemp_min :: number
  dhwTemp_max :: number
  zone_comfortTemp_value :: number
  zone_comfortTemp_min :: number
  zone_comfortTemp_max :: number
  zone_mode_value :: number
  zone_derogaUntil :: "string option"
  lacks :: "entry \<Rightarrow> bool"

text \<open>The four keys of \<open>_set_param\<close> (the constants \<open>PARAM_*\<close> of \<open>const.py\<close>).\<close>

datatype param = PARAM_MODE | PARAM_DHW_SET_TEMPERATURE | PARAM_CH_SET_TEMPERATURE | PARAM_CH_MODE

text \<open>
  What the checker does to the outside world, in order: the HTTP requests of its
  \<open>requests.Session\<close>, the timers it arms with \<open>track_point_in_time\<close> (with the delay in
  seconds) and the signal it sends with \<open>dispatcher_send\<close>. The write request carries the
  pair \<open>NewValue\<close>, \<open>OldValue\<close>.
\<close>

datatype effect =
    Login_post
  | Get_plant_data
  | Set_plant_data snapshot snapshot
  | Track_command nat
  | Track_set nat
  | Service_update

text \<open>
  The fields of \<open>__init__\<close> (locks, logger and the constant url left out), and two fields
  for the world around the object: \<open>trace\<close>, the effects so far, and \<open>set_timers\<close>, the number
  of armed one-shot timers for \<open>_actual_set_http_data\<close> that have not fired yet.
\<close>

record checker =
  ariston_data :: "snapshot option"
  errors :: nat
  get_time_start :: number
  get_time_end :: number
  init_available :: bool
  login :: bool
  password :: string
  plant_id :: string
  retry_timeout :: nat
  set_param :: "param \<Rightarrow> number option"
  set_retry :: nat
  set_max_retries :: nat
  set_new_data :: bool
  set_scheduled :: bool
  set_time_start :: number
  set_time_end :: number
  token :: "(string \<times> string) option"
  user :: string
  trace :: "effect list"
  set_timers :: nat

text \<open>\<open>AristonChecker.__init__\<close> (lines 114-143).\<close>

definition init :: "string \<Rightarrow> string \<Rightarrow> nat \<Rightarrow> checker" where
  "init username passwd retries =
     \<lparr> ariston_data = None, errors = 0, get_time_start = 0, get_time_end = 0,
       init_available = False, login = False, password = passwd, plant_id = [],
       retry_timeout = HTTP_RETRY_INTERVAL, set_param = Map.empty, set_retry = 0,
       set_max_retries = retries, set_new_data = False, set_scheduled = False,
       set_time_start = 0, set_time_end = 0, token = None, user = username,
       trace = [], set_timers = 0 \<rparr>"

section \<open>Availability (lines 145-148)\<close>

definition available :: "checker \<Rightarrow> bool" where
  "available s = (errors s \<le> MAX_ERRORS \<and> init_available s)"

section \<open>Login (lines 150-180)\<close>

text \<open>
  The answer of the network to the login request: a read timeout, another exception of
  the HTTP library, or a response, of which the code reads the final url.
\<close>

datatype login_reply = Login_ReadTimeout | Login_Exception | Login_Response string

definition login_session :: "login_reply \<Rightarrow> checker \<Rightarrow> (error + unit) \<times> checker" where
  "login_session reply s =
     (if \<not> login s then
        (let s1 = s\<lparr> token := Some (user s, password s), trace := trace s @ [Login_post] \<rparr>
         in case reply of
              Login_ReadTimeout \<Rightarrow> (Inl CommError, s1)
            | Login_Exception \<Rightarrow> (Inl RequestError, s1)
            | Login_Response url \<Rightarrow>
                if startswith url (ARISTON_URL @ ''/PlantDashboard/Index/'') then
                  (case index (split (CHR ''/'') url) 5 of
                     Inl e \<Rightarrow> (Inl e, s1)
                   | Inr p \<Rightarrow> (Inr (), s1\<lparr> plant_id := p, login := True \<rparr>))
                else (Inl LoginError, s1))
      else (Inr (), s))"

section \<open>Reading the plant data (lines 182-236)\<close>

text \<open>
  The answer to a GET or POST of plant data: a read timeout, another exception of the HTTP
  library, or a response with its status code and its body, which is JSON or not.
\<close>

datatype json = Not_JSON | JSON "snapshot option"

datatype http_reply = ReadTimeout | Request_Exception | Response nat json

text \<open>
  What one call of \<open>_get_http_data\<close> reads from outside: the answer to a login request (used
  only when the session is not logged in), the three readings of \<open>time.time()\<close> (lines 186,
  191 and 210) and the answer to the GET.
\<close>

record get_io =
  get_login :: login_reply
  get_now :: number
  get_start :: number
  get_reply :: http_reply
  get_end :: number

definition get_http_data :: "get_io \<Rightarrow> checker \<Rightarrow> (error + unit) \<times> checker" where
  "get_http_data io s0 =
     (case login_session (get_login io) s0 of
        (Inl e, s) \<Rightarrow> (Inl e, s)
      | (Inr _, s) \<Rightarrow>
          if login s \<and> plant_id s \<noteq> [] then
            if get_now io - set_time_start s > TIMER_SET_LOCK then
              (let s1 = s\<lparr> get_time_start := get_start io, trace := trace s @ [Get_plant_data] \<rparr>
               in case get_reply io of
                    ReadTimeout \<Rightarrow> (Inl CommError, s1)
                  | Request_Exception \<Rightarrow> (Inl CommError, s1)
                  | Response code body \<Rightarrow>
                      if code = 599 then (Inl CommError, s1)
                      else if code = 500 then (Inl CommError, s1\<lparr> login := False \<rparr>)
                      else if code \<noteq> 200 then (Inl CommError, s1)
                      else
                        (let s2 = s1\<lparr> get_time_end := get_end io \<rparr>
                         in case body of
                              Not_JSON \<Rightarrow> (Inl CommError, s2\<lparr> login := False \<rparr>)
                            | JSON d \<Rightarrow> (Inr (), s2\<lparr> ariston_data := d \<rparr>)))
            else (Inr (), s)
          else (Inl LoginError, s))"

section \<open>The deroga time (lines 238-269)\<close>

text \<open>The second \<open>try\<close> block (lines 248-266): the conversion, or the exception it raises.\<close>

definition convert_12h :: "string \<Rightarrow> error + string" where
  "convert_12h time_str_12h =
     (let time_and_indic = split (CHR '' '') time_str_12h
      in after (index time_and_indic 1) (\<lambda>indic.
           if indic = ''AM'' then
             after (index time_and_indic 0) (\<lambda>t.
               if t = ''12:00'' then Inr ''00:00'' else Inr t)
           else if indic = ''PM'' then
             after (index time_and_indic 0) (\<lambda>t.
               if t = ''12:00'' then Inr ''12:00''
               else
                 (let time_hour_minute = split (CHR '':'') t
                  in after (index time_hour_minute 0) (\<lambda>h.
                     after (py_int h) (\<lambda>n.
                     after (index time_hour_minute 1) (\<lambda>m.
                       Inr (str_int (n + 12) @ m))))))
           else
             (let time_hour_minute = split (CHR '':'') time_str_12h
              in after (index time_hour_minute 0) (\<lambda>h.
                   if h = [] then Inr DEFAULT_TIME
                   else after (index time_hour_minute 1) (\<lambda>m.
                     if m = [] then Inr DEFAULT_TIME else Inr time_str_12h)))))"

text \<open>The whole conversion of a string: every exception of the block gives the default.\<close>

definition time_24h :: "string \<Rightarrow> string" where
  "time_24h time_str_12h =
     (case convert_12h time_str_12h of Inl e \<Rightarrow> DEFAULT_TIME | Inr t \<Rightarrow> t)"

definition set_deroga_time :: "checker \<Rightarrow> string" where
  "set_deroga_time s =
     time_24h
       (case ariston_data s of
          None \<Rightarrow> DEFAULT_TIME
        | Some d \<Rightarrow>
            if lacks d E_zone then DEFAULT_TIME
            else (case zone_derogaUntil d of None \<Rightarrow> DEFAULT_TIME | Some str \<Rightarrow> str))"

section \<open>Writing the plant data (lines 271-401)\<close>

text \<open>The entry of the document that belongs to a key of \<open>_set_param\<close>.\<close>

fun field :: "param \<Rightarrow> snapshot \<Rightarrow> number" where
  "field PARAM_MODE d = mode d"
| "field PARAM_DHW_SET_TEMPERATURE d = dhwTemp_value d"
| "field PARAM_CH_SET_TEMPERATURE d = zone_comfortTemp_value d"
| "field PARAM_CH_MODE d = zone_mode_value d"

fun put_field :: "param \<Rightarrow> number \<Rightarrow> snapshot \<Rightarrow> snapshot" where
  "put_field PARAM_MODE v d = d\<lparr> mode := v \<rparr>"
| "put_field PARAM_DHW_SET_TEMPERATURE v d = d\<lparr> dhwTemp_value := v \<rparr>"
| "put_field PARAM_CH_SET_TEMPERATURE v d = d\<lparr> zone_comfortTemp_value := v \<rparr>"
| "put_field PARAM_CH_MODE v d = d\<lparr> zone_mode_value := v \<rparr>"

text \<open>The path that the block of a key reads.\<close>

fun entry_of :: "param \<Rightarrow> entry" where
  "entry_of PARAM_MODE = E_mode"
| "entry_of PARAM_DHW_SET_TEMPERATURE = E_dhwTemp_value"
| "entry_of PARAM_CH_SET_TEMPERATURE = E_comfortTemp_value"
| "entry_of PARAM_CH_MODE = E_zone_mode_value"

text \<open>
  One of the four blocks of lines 290-333, for the key \<open>k\<close>, on the checker, the copy
  \<open>NewValue\<close> and the flag \<open>data_changed\<close>, where the copy holds the entry that the block
  reads.
\<close>

definition reconcile_param :: "param \<Rightarrow> checker \<times> snapshot \<times> bool \<Rightarrow> checker \<times> snapshot \<times> bool" where
  "reconcile_param k = (\<lambda>(s, new_value, data_changed).
     case set_param s k of
       None \<Rightarrow> (s, new_value, data_changed)
     | Some v \<Rightarrow>
         if field k new_value = v then
           if set_time_start s < get_time_end s
           then (s\<lparr> set_param := (set_param s)(k := None) \<rparr>, new_value, data_changed)
           else (s, new_value, True)
         else (s, put_field k v new_value, True))"

text \<open>The four blocks, in the order of the source.\<close>

definition reconcile_params :: "checker \<times> snapshot \<times> bool \<Rightarrow> checker \<times> snapshot \<times> bool" where
  "reconcile_params x =
     reconcile_param PARAM_CH_MODE
       (reconcile_param PARAM_CH_SET_TEMPERATURE
         (reconcile_param PARAM_DHW_SET_TEMPERATURE
           (reconcile_param PARAM_MODE x)))"

text \<open>
  Lines 335-351, and again lines 383-399: arm the timer for one more attempt, or give the
  pending values up.
\<close>

definition retry_or_give_up :: "checker \<Rightarrow> checker" where
  "retry_or_give_up s =
     (if \<not> set_scheduled s then
        if set_retry s < set_max_retries s then
          s\<lparr> trace := trace s @ [Track_set HTTP_SET_INTERVAL],
             set_timers := set_timers s + 1,
             set_retry := set_retry s + 1,
             set_scheduled := True \<rparr>
        else
          s\<lparr> set_param := (set_param s)
                 (PARAM_MODE := None, PARAM_DHW_SET_TEMPERATURE := None,
                  PARAM_CH_SET_TEMPERATURE := None, PARAM_CH_MODE := None) \<rparr>
      else s)"

text \<open>
  What one call of \<open>_actual_set_http_data\<close> reads from outside: the answer to a login
  request, the two readings of \<open>time.time()\<close> (lines 353 and 363) and the answer to the POST.
\<close>

record set_io =
  set_login :: login_reply
  set_start :: number
  set_reply :: http_reply
  set_end :: number

text \<open>Lines 274-280: a call that follows new parameters is an initial one and resets
  the retry counter; any other call is the scheduled one.\<close>

definition mark_attempt :: "checker \<Rightarrow> checker" where
  "mark_attempt s =
     (if \<not> set_new_data s then s\<lparr> set_scheduled := False \<rparr>
      else s\<lparr> set_new_data := False, set_retry := 0 \<rparr>)"

text \<open>The condition of line 281.\<close>

definition ready :: "checker \<Rightarrow> bool" where
  "ready s = (login s \<and> available s \<and> plant_id s \<noteq> [])"

text \<open>Lines 352-378: the write request with the pair \<open>NewValue\<close>, \<open>OldValue\<close>.\<close>

definition transmit :: "set_io \<Rightarrow> snapshot \<Rightarrow> snapshot \<Rightarrow> checker \<Rightarrow> (error + unit) \<times> checker" where
  "transmit io new_value old_value s =
     (let s1 = s\<lparr> set_time_start := set_start io,
                  trace := trace s @ [Set_plant_data new_value old_value] \<rparr>
      in case set_reply io of
           ReadTimeout \<Rightarrow> (Inl CommError, s1)
         | Request_Exception \<Rightarrow> (Inl RequestError, s1)
         | Response code body \<Rightarrow>
             if code \<noteq> 200 then (Inl CommError, s1)
             else
               (let s2 = s1\<lparr> set_time_end := set_end io \<rparr>
                in case body of
                     Not_JSON \<Rightarrow> (Inl ValueError, s2)
                   | JSON d \<Rightarrow> (Inr (), s2\<lparr> ariston_data := d \<rparr>)))"

text \<open>
  A block as the code runs it: when the key is pending and the copy lacks its entry, the
  read raises \<open>KeyError\<close>, with what the blocks before it did to the pending values kept,
  and the later blocks do not run.
\<close>

definition reconcile_block ::
    "param \<Rightarrow> error option \<times> checker \<times> snapshot \<times> bool \<Rightarrow> error option \<times> checker \<times> snapshot \<times> bool" where
  "reconcile_block k = (\<lambda>(e, s, new_value, data_changed).
     if e \<noteq> None then (e, s, new_value, data_changed)
     else if set_param s k \<noteq> None \<and> lacks new_value (entry_of k)
     then (Some KeyError, s, new_value, data_changed)
     else (None, reconcile_param k (s, new_value, data_changed)))"

definition reconcile_blocks ::
    "checker \<times> snapshot \<times> bool \<Rightarrow> error option \<times> checker \<times> snapshot \<times> bool" where
  "reconcile_blocks x =
     reconcile_block PARAM_CH_MODE
       (reconcile_block PARAM_CH_SET_TEMPERATURE
         (reconcile_block PARAM_DHW_SET_TEMPERATURE
           (reconcile_block PARAM_MODE (None, x))))"

text \<open>
  Lines 282-380, the branch of a ready session: the two copies of the document with the
  deroga time converted (a \<open>KeyError\<close> when the document is empty or has no \<open>zone\<close>), the
  four blocks, and the request when something changed.
\<close>

definition write_changes :: "set_io \<Rightarrow> checker \<Rightarrow> (error + unit) \<times> checker" where
  "write_changes io s =
     (case ariston_data s of
        None \<Rightarrow> (Inl KeyError, s)
      | Some d \<Rightarrow>
          if lacks d E_zone then (Inl KeyError, s)
          else
            (let old_value = d\<lparr> zone_derogaUntil := Some (set_deroga_time s) \<rparr>;
                 (e, s1, new_value, data_changed) = reconcile_blocks (s, old_value, False)
             in case e of
                  Some err \<Rightarrow> (Inl err, s1)
                | None \<Rightarrow>
                    if data_changed then transmit io new_value old_value (retry_or_give_up s1)
                    else (Inr (), s1)))"

definition actual_set_http_data :: "set_io \<Rightarrow> checker \<Rightarrow> (error + unit) \<times> checker" where
  "actual_set_http_data io s0 =
     (case login_session (set_login io) s0 of
        (Inl e, s) \<Rightarrow> (Inl e, s)
      | (Inr _, s) \<Rightarrow>
          (let s1 = mark_attempt s
           in if ready s1 then write_changes io s1
              else (Inl CommError, retry_or_give_up s1)))"

section \<open>Accepting new parameters (lines 403-458)\<close>

text \<open>
  What the function takes from outside the sources: the two tables of \<open>const.py\<close> and
  Python's \<open>float\<close> on strings, which gives the number, or nothing when it raises or when
  the number is infinite or not a number (rounding it raises then).
\<close>

record extern =
  MODE_TO_VALUE :: "string \<Rightarrow> number option"
  CH_MODE_TO_VALUE :: "string \<Rightarrow> number option"
  py_float :: "string \<Rightarrow> number option"

text \<open>
  The four checks (lines 409-453). \<open>parameter_list\<close> gives, for a key it holds, the string
  \<open>str(parameter_list[key])\<close>. A bound that the document lacks raises \<open>KeyError\<close> inside the
  \<open>try\<close>, and the value is not accepted.
\<close>

definition check_mode :: "extern \<Rightarrow> (param \<Rightarrow> string option) \<Rightarrow> checker \<Rightarrow> checker" where
  "check_mode ext parameter_list s =
     (case parameter_list PARAM_MODE of
        None \<Rightarrow> s
      | Some v \<Rightarrow>
          (let wanted_mode = lower v
           in case MODE_TO_VALUE ext wanted_mode of
                Some code \<Rightarrow> s\<lparr> set_param := (set_param s)(PARAM_MODE \<mapsto> code) \<rparr>
              | None \<Rightarrow> s))"

definition check_dhw_temperature :: "extern \<Rightarrow> (param \<Rightarrow> string option) \<Rightarrow> checker \<Rightarrow> checker" where
  "check_dhw_temperature ext parameter_list s =
     (case parameter_list PARAM_DHW_SET_TEMPERATURE of
        None \<Rightarrow> s
      | Some v \<Rightarrow>
          (let wanted_dhw_temperature = lower v
           in case py_float ext wanted_dhw_temperature of
                None \<Rightarrow> s
              | Some x \<Rightarrow>
                  (let temperature = of_int (py_round x)
                   in case ariston_data s of
                        None \<Rightarrow> s
                      | Some d \<Rightarrow>
                          if \<not> lacks d E_dhwTemp_min \<and> temperature \<ge> dhwTemp_min d
                             \<and> \<not> lacks d E_dhwTemp_max \<and> temperature \<le> dhwTemp_max d
                          then s\<lparr> set_param := (set_param s)(PARAM_DHW_SET_TEMPERATURE \<mapsto> temperature) \<rparr>
                          else s)))"

definition check_ch_temperature :: "extern \<Rightarrow> (param \<Rightarrow> string option) \<Rightarrow> checker \<Rightarrow> checker" where
  "check_ch_temperature ext parameter_list s =
     (case parameter_list PARAM_CH_SET_TEMPERATURE of
        None \<Rightarrow> s
      | Some v \<Rightarrow>
          (let wanted_ch_temperature = lower v
           in case py_float ext wanted_ch_temperature of
                None \<Rightarrow> s
              | Some x \<Rightarrow>
                  (let temperature = of_int (py_round (x * 2)) / 2
                   in case ariston_data s of
                        None \<Rightarrow> s
                      | Some d \<Rightarrow>
                          if \<not> lacks d E_comfortTemp_min \<and> temperature \<ge> zone_comfortTemp_min d
                             \<and> \<not> lacks d E_comfortTemp_max \<and> temperature \<le> zone_comfortTemp_max d
                          then s\<lparr> set_param := (set_param s)(PARAM_CH_SET_TEMPERATURE \<mapsto> temperature) \<rparr>
                          else s)))"

definition check_ch_mode :: "extern \<Rightarrow> (param \<Rightarrow> string option) \<Rightarrow> checker \<Rightarrow> checker" where
  "check_ch_mode ext parameter_list s =
     (case parameter_list PARAM_CH_MODE of
        None \<Rightarrow> s
      | Some v \<Rightarrow>
          (let wanted_ch_mode = lower v
           in case CH_MODE_TO_VALUE ext wanted_ch_mode of
                Some code \<Rightarrow> s\<lparr> set_param := (set_param s)(PARAM_CH_MODE \<mapsto> code) \<rparr>
              | None \<Rightarrow> s))"

text \<open>The four checks in the order of the source.\<close>

definition accept_parameters :: "extern \<Rightarrow> (param \<Rightarrow> string option) \<Rightarrow> checker \<Rightarrow> checker" where
  "accept_parameters ext parameter_list s =
     check_ch_mode ext parameter_list
       (check_ch_temperature ext parameter_list
         (check_dhw_temperature ext parameter_list
           (check_mode ext parameter_list s)))"

definition set_http_data ::
    "extern \<Rightarrow> (param \<Rightarrow> string option) \<Rightarrow> set_io \<Rightarrow> checker \<Rightarrow> (error + unit) \<times> checker" where
  "set_http_data ext parameter_list io s =
     (if ariston_data s \<noteq> None then
        (let s1 = accept_parameters ext parameter_list s;
             s2 = s1\<lparr> set_new_data := True \<rparr>
         in actual_set_http_data io s2)
      else (Inl CommError, s))"

section \<open>The poll tick (lines 460-492)\<close>

definition dispatcher_send :: "checker \<Rightarrow> checker" where
  "dispatcher_send s = s\<lparr> trace := trace s @ [Service_update] \<rparr>"

text \<open>The handler of \<open>AristonError\<close> (lines 475-484), before it raises the error again.\<close>

definition on_poll_error :: "checker \<Rightarrow> checker" where
  "on_poll_error s =
     (let was_online = available s;
          s1 = s\<lparr> errors := errors s + 1 \<rparr>;
          offline = \<not> available s1
      in if offline \<and> was_online then dispatcher_send (s1\<lparr> login := False \<rparr>) else s1)"

text \<open>The end of the tick after a fetch that did not raise (lines 486-492).\<close>

definition on_poll_success :: "checker \<Rightarrow> checker" where
  "on_poll_success s =
     (let was_offline = \<not> available s;
          s1 = s\<lparr> errors := 0, init_available := True \<rparr>
      in if was_offline then dispatcher_send s1 else s1)"

text \<open>The tick up to the outcome of the fetch (lines 462-473).\<close>

definition poll_fetch :: "get_io \<Rightarrow> checker \<Rightarrow> (error + unit) \<times> checker" where
  "poll_fetch io s =
     (let s1 = s\<lparr> retry_timeout :=
                   (if errors s \<ge> MAX_ERRORS_TIMER_EXTEND then HTTP_RETRY_INTERVAL_DOWN
                    else HTTP_RETRY_INTERVAL) \<rparr>;
          s2 = s1\<lparr> trace := trace s1 @ [Track_command (retry_timeout s1)] \<rparr>
      in get_http_data io s2)"

definition command :: "get_io \<Rightarrow> checker \<Rightarrow> (error + unit) \<times> checker" where
  "command io s =
     (case poll_fetch io s of
        (Inl e, s1) \<Rightarrow> if is_AristonError e then (Inl e, on_poll_error s1) else (Inl e, s1)
      | (Inr _, s1) \<Rightarrow> (Inr (), on_poll_success s1))"

section \<open>The timers of the host\<close>

text \<open>
  The host fires an armed timer of \<open>_actual_set_http_data\<close> once; an exception of the
  callback is logged by the host and goes nowhere.
\<close>

definition fire_retry :: "set_io \<Rightarrow> checker \<Rightarrow> checker" where
  "fire_retry io s = snd (actual_set_http_data io (s\<lparr> set_timers := set_timers s - 1 \<rparr>))"

text \<open>Poll ticks one after the other, whatever each returns.\<close>

fun run_polls :: "get_io list \<Rightarrow> checker \<Rightarrow> checker" where
  "run_polls [] s = s"
| "run_polls (io # ios) s = run_polls ios (snd (command io s))"

text \<open>
  The life of the write timers after a request: as long as one is armed, some poll ticks
  pass and then the timer fires. The list gives, for each firing, the ticks before it and
  what the firing reads; the run stops when no timer is armed, or when the list ends.
\<close>

fun run_retries :: "(get_io list \<times> set_io) list \<Rightarrow> checker \<Rightarrow> checker" where
  "run_retries [] s = s"
| "run_retries ((polls, io) # rest) s =
     (if set_timers s = 0 then s else run_retries rest (fire_retry io (run_polls polls s)))"

text \<open>The number of write requests among the effects.\<close>

fun is_transmit :: "effect \<Rightarrow> bool" where
  "is_transmit (Set_plant_data n old) = True"
| "is_transmit e = False"

definition transmits :: "checker \<Rightarrow> nat" where
  "transmits s = length (filter is_transmit (trace s))"

definition updates_sent :: "checker \<Rightarrow> nat" where
  "updates_sent s = length (filter (\<lambda>e. e = Service_update) (trace s))"

section \<open>Views of the state\<close>

text \<open>
  What the write path owns (the pending values, its counters and flags, the time of its
  last request, its timers and the number of its requests), and what availability and its
  signal depend on.
\<close>

definition write_view ::
    "checker \<Rightarrow> (param \<Rightarrow> number option) \<times> nat \<times> nat \<times> bool \<times> bool \<times> number \<times> nat \<times> nat" where
  "write_view s =
     (set_param s, set_retry s, set_max_retries s, set_new_data s, set_scheduled s,
      set_time_start s, set_timers s, transmits s)"

text \<open>The cached document holds every path that the write path reads.\<close>

definition complete :: "snapshot \<Rightarrow> bool" where
  "complete d =
     (\<not> lacks d E_zone \<and> \<not> lacks d E_mode \<and> \<not> lacks d E_dhwTemp_value
      \<and> \<not> lacks d E_comfortTemp_value \<and> \<not> lacks d E_zone_mode_value)"

definition has_complete_data :: "checker \<Rightarrow> bool" where
  "has_complete_data s = (case ariston_data s of None \<Rightarrow> False | Some d \<Rightarrow> complete d)"

text \<open>The write path's bookkeeping alone.\<close>

definition retry_view ::
    "checker \<Rightarrow> (param \<Rightarrow> number option) \<times> nat \<times> nat \<times> bool \<times> bool \<times> nat" where
  "retry_view s =
     (set_param s, set_retry s, set_max_retries s, set_new_data s, set_scheduled s, set_timers s)"

definition health_view :: "checker \<Rightarrow> nat \<times> bool \<times> nat" where
  "health_view s = (errors s, init_available s, updates_sent s)"

section \<open>Example inputs\<close>

definition example_url :: string where
  "example_url = ''https://www.ariston-net.remotethermo.com/PlantDashboard/Index/4711''"

definition example_data :: snapshot where
  "example_data =
     \<lparr> mode = 0, dhwTemp_value = 45, dhwTemp_min = 40, dhwTemp_max = 80,
       zone_comfortTemp_value = 20, zone_comfortTemp_min = 10, zone_comfortTemp_max = 30,
       zone_mode_value = 2, zone_derogaUntil = Some ''12:30 PM'', lacks = (\<lambda>e. False) \<rparr>"

text \<open>The tables as the integration's \<open>const.py\<close> has them, and \<open>float\<close> on three strings.\<close>

definition example_extern :: extern where
  "example_extern =
     \<lparr> MODE_TO_VALUE = [''winter'' \<mapsto> 1, ''summer'' \<mapsto> 0, ''off'' \<mapsto> 5],
       CH_MODE_TO_VALUE = [''manual'' \<mapsto> 2, ''scheduled'' \<mapsto> 3],
       py_float = [''45'' \<mapsto> 45, ''21.3'' \<mapsto> 213 / 10, ''95'' \<mapsto> 95] \<rparr>"

text \<open>A tick whose login and fetch succeed, at time 1000, and a tick whose requests time out.\<close>

definition poll_ok :: get_io where
  "poll_ok =
     \<lparr> get_login = Login_Response example_url, get_now = 1000, get_start = 1000,
       get_reply = Response 200 (JSON (Some example_data)), get_end = 1010 \<rparr>"

definition poll_timeout :: get_io where
  "poll_timeout =
     \<lparr> get_login = Login_ReadTimeout, get_now = 2000, get_start = 2000,
       get_reply = ReadTimeout, get_end = 2015 \<rparr>"

text \<open>A tick at time 2000 whose fetch is answered with status 500.\<close>

definition poll_500 :: get_io where
  "poll_500 =
     \<lparr> get_login = Login_ReadTimeout, get_now = 2000, get_start = 2000,
       get_reply = Response 500 Not_JSON, get_end = 2015 \<rparr>"

text \<open>A write at time 1100 whose request times out, with a login that would time out too.\<close>

definition write_timeout :: set_io where
  "write_timeout =
     \<lparr> set_login = Login_ReadTimeout, set_start = 1100, set_reply = ReadTimeout,
       set_end = 1115 \<rparr>"

text \<open>The checker after its first tick, which succeeded.\<close>

definition online :: checker where
  "online = snd (command poll_ok (init ''user'' ''secret'' 1))"

text \<open>The request for the mode \<open>winter\<close>.\<close>

definition want_winter :: "param \<Rightarrow> string option" where
  "want_winter = [PARAM_MODE \<mapsto> ''Winter'']"



text \<open>
  A new checker after two ticks that timed out, and the checker after its first tick with
  four errors counted since.
\<close>

definition two_failures :: checker where
  "two_failures = run_polls [poll_timeout, poll_timeout] (init ''user'' ''secret'' 1)"

definition nearly_offline :: checker where
  "nearly_offline = online\<lparr> errors := 4 \<rparr>"

text \<open>The same one failed tick later, which makes it unavailable.\<close>

definition offline :: checker where
  "offline = snd (command poll_timeout nearly_offline)"

text \<open>The number that a string of decimal digits denotes (for stating what \<open>int\<close> returns).\<close>

definition decimal :: "string \<Rightarrow> nat" where
  "decimal h = foldl (\<lambda>a c. 10 * a + digit_value c) 0 h"

text \<open>
  The request for \<open>winter\<close> on the checker after its first tick, with a write that times
  out; then a tick whose fetch is answered with status 500, which clears \<open>login\<close>.
\<close>

definition first_attempt :: checker where
  "first_attempt = snd (set_http_data example_extern want_winter write_timeout online)"

definition logged_out :: checker where
  "logged_out = snd (command poll_500 first_attempt)"

text \<open>
  A write at time 1100 that succeeds and a tick at time 1200 that reads the new mode; the
  request for \<open>summer\<close>.
\<close>

definition write_ok :: set_io where
  "write_ok =
     \<lparr> set_login = Login_ReadTimeout, set_start = 1100,
       set_reply = Response 200 (JSON (Some (example_data\<lparr> mode := 1 \<rparr>))), set_end = 1105 \<rparr>"

definition poll_winter :: get_io where
  "poll_winter =
     \<lparr> get_login = Login_ReadTimeout, get_now = 1200, get_start = 1200,
       get_reply = Response 200 (JSON (Some (example_data\<lparr> mode := 1 \<rparr>))), get_end = 1210 \<rparr>"

definition want_summer :: "param \<Rightarrow> string option" where
  "want_summer = [PARAM_MODE \<mapsto> ''summer'']"

text \<open>
  The checker after a request for \<open>winter\<close> that was written, a tick that read it back, and
  the same request again, which the read confirms: nothing is pending, and the timer of
  the first request is still armed.
\<close>

definition written :: checker where
  "written = snd (set_http_data example_extern want_winter write_ok online)"

definition read_back :: checker where
  "read_back = snd (command poll_winter written)"

definition stale_timer :: checker where
  "stale_timer = snd (set_http_data example_extern want_winter write_ok read_back)"

text \<open>The request for \<open>summer\<close> in that state, with a write that times out.\<close>

definition summer_attempt :: checker where
  "summer_attempt = snd (set_http_data example_extern want_summer write_timeout stale_timer)"

text \<open>The two firings of the write timer after it.\<close>

definition summer_retry :: checker where
  "summer_retry = fire_retry write_timeout summer_attempt"

definition summer_given_up :: checker where
  "summer_given_up = fire_retry write_timeout summer_retry"

text \<open>A tick at time 1200 that reads a document with no entry \<open>mode\<close>.\<close>

definition poll_no_mode :: get_io where
  "poll_no_mode =
     \<lparr> get_login = Login_ReadTimeout, get_now = 1200, get_start = 1200,
       get_reply = Response 200 (JSON (Some (example_data\<lparr> lacks := (\<lambda>e. e = E_mode) \<rparr>))),
       get_end = 1210 \<rparr>"

text \<open>
  A request with no parameters after the tick that cleared \<open>login\<close>, with a login that times
  out; then the firing of the write timer at time 1300, with a login that succeeds and a
  write that times out.
\<close>

definition failed_request :: checker where
  "failed_request = snd (set_http_data example_extern Map.empty write_timeout logged_out)"

definition write_relogin :: set_io where
  "write_relogin =
     \<lparr> set_login = Login_Response example_url, set_start = 1300, set_reply = ReadTimeout,
       set_end = 1315 \<rparr>"

definition stuck :: checker where
  "stuck = fire_retry write_relogin failed_request"

section \<open>Auxiliary facts\<close>

lemmas const_defs =
  ARISTON_URL_def DEFAULT_TIME_def HTTP_RETRY_INTERVAL_def HTTP_RETRY_INTERVAL_DOWN_def
  HTTP_SET_INTERVAL_def MAX_ERRORS_def MAX_ERRORS_TIMER_EXTEND_def TIMER_SET_LOCK_def

subsection \<open>What login and the poll tick leave alone\<close>

lemma login_session_views:
  "write_view (snd (login_session reply s)) = write_view s"
  "health_view (snd (login_session reply s)) = health_view s"
  by (simp_all add: login_session_def Let_def write_view_def health_view_def updates_sent_def
      transmits_def split: login_reply.splits sum.splits)

lemma get_http_data_views:
  "write_view (snd (get_http_data io s)) = write_view s"
  "health_view (snd (get_http_data io s)) = health_view s"
proof -
  obtain r1 s1 where l: "login_session (get_login io) s = (r1, s1)"
    by (metis surj_pair)
  have "write_view s1 = write_view s" and "health_view s1 = health_view s"
    using login_session_views [of "get_login io" s] l by simp_all
  then show "write_view (snd (get_http_data io s)) = write_view s"
    and "health_view (snd (get_http_data io s)) = health_view s"
    by (simp_all add: get_http_data_def l Let_def write_view_def health_view_def updates_sent_def
        transmits_def split: sum.splits http_reply.splits json.splits)
qed

lemma poll_fetch_views:
  "write_view (snd (poll_fetch io s)) = write_view s"
  "health_view (snd (poll_fetch io s)) = health_view s"
  by (simp_all add: poll_fetch_def Let_def get_http_data_views)
     (simp_all add: write_view_def health_view_def updates_sent_def transmits_def)

lemma available_health:
  "health_view s' = health_view s \<Longrightarrow> available s' = available s"
  by (simp add: available_def health_view_def)

lemma on_poll_error_events:
  "updates_sent (on_poll_error s) =
     updates_sent s + (if available s \<and> \<not> available (on_poll_error s) then 1 else 0)"
  "errors (on_poll_error s) = errors s + 1"
  "init_available (on_poll_error s) = init_available s"
  by (auto simp add: on_poll_error_def Let_def dispatcher_send_def updates_sent_def available_def)

lemma on_poll_success_events:
  "updates_sent (on_poll_success s) = updates_sent s + (if available s then 0 else 1)"
  "errors (on_poll_success s) = 0"
  "init_available (on_poll_success s)"
  "available (on_poll_success s)"
  by (auto simp add: on_poll_success_def Let_def dispatcher_send_def updates_sent_def available_def)

lemma on_poll_write_view:
  "write_view (on_poll_error s) = write_view s"
  "write_view (on_poll_success s) = write_view s"
  by (simp_all add: on_poll_error_def on_poll_success_def Let_def dispatcher_send_def
      write_view_def transmits_def)

lemma command_write_view:
  "write_view (snd (command io s)) = write_view s"
proof -
  obtain r1 s1 where p: "poll_fetch io s = (r1, s1)"
    by (metis surj_pair)
  have "write_view s1 = write_view s"
    using poll_fetch_views(1) [of io s] p by simp
  then show ?thesis
    by (simp add: command_def p on_poll_write_view split: sum.splits)
qed

lemma run_polls_write_view:
  "write_view (run_polls ios s) = write_view s"
  by (induction ios arbitrary: s) (simp_all add: command_write_view)

subsection \<open>One block of the comparison, and the four together\<close>

lemma field_put_field:
  "field k' (put_field k v n) = (if k' = k then v else field k' n)"
  by (cases k; cases k'; simp)

lemma ex_param:
  "(\<exists>k. P k) =
     (P PARAM_MODE \<or> P PARAM_DHW_SET_TEMPERATURE \<or> P PARAM_CH_SET_TEMPERATURE \<or> P PARAM_CH_MODE)"
  by (metis param.exhaust)

lemma reconcile_param_result:
  assumes "reconcile_param k (s, n, c) = (s', n', c')"
  shows "set_time_start s' = set_time_start s"
    and "get_time_end s' = get_time_end s"
    and "s' = s\<lparr> set_param := set_param s' \<rparr>"
    and "set_param s' k' =
           (if k' = k \<and> (\<exists>v. set_param s k = Some v \<and> field k n = v
                            \<and> set_time_start s < get_time_end s)
            then None else set_param s k')"
    and "field k' n' =
           (if k' = k then (case set_param s k of None \<Rightarrow> field k n | Some v \<Rightarrow> v)
            else field k' n)"
    and "c' = (c \<or> (\<exists>v. set_param s k = Some v
                        \<and> \<not> (field k n = v \<and> set_time_start s < get_time_end s)))"
  using assms
  by (auto simp add: reconcile_param_def field_put_field split: option.splits if_splits)

lemma reconcile_params_result:
  assumes "reconcile_params (s, n, c) = (s', n', c')"
  shows "s' = s\<lparr> set_param := set_param s' \<rparr>"
    and "set_param s' k =
           (if (\<exists>v. set_param s k = Some v \<and> field k n = v \<and> set_time_start s < get_time_end s)
            then None else set_param s k)"
    and "field k n' = (case set_param s k of None \<Rightarrow> field k n | Some v \<Rightarrow> v)"
    and "c' = (c \<or> (\<exists>k v. set_param s k = Some v
                          \<and> \<not> (field k n = v \<and> set_time_start s < get_time_end s)))"
proof -
  obtain s1 n1 c1 where 1: "reconcile_param PARAM_MODE (s, n, c) = (s1, n1, c1)"
    by (metis prod_cases3)
  obtain s2 n2 c2 where 2: "reconcile_param PARAM_DHW_SET_TEMPERATURE (s1, n1, c1) = (s2, n2, c2)"
    by (metis prod_cases3)
  obtain s3 n3 c3 where 3: "reconcile_param PARAM_CH_SET_TEMPERATURE (s2, n2, c2) = (s3, n3, c3)"
    by (metis prod_cases3)
  have 4: "reconcile_param PARAM_CH_MODE (s3, n3, c3) = (s', n', c')"
    using assms 1 2 3 by (simp add: reconcile_params_def)
  note r1 = reconcile_param_result [OF 1]
  note r2 = reconcile_param_result [OF 2]
  note r3 = reconcile_param_result [OF 3]
  note r4 = reconcile_param_result [OF 4]
  show "s' = s\<lparr> set_param := set_param s' \<rparr>"
  proof -
    obtain m1 where "s1 = s\<lparr> set_param := m1 \<rparr>" by (rule that [OF r1(3)])
    moreover obtain m2 where "s2 = s1\<lparr> set_param := m2 \<rparr>" by (rule that [OF r2(3)])
    moreover obtain m3 where "s3 = s2\<lparr> set_param := m3 \<rparr>" by (rule that [OF r3(3)])
    moreover obtain m4 where "s' = s3\<lparr> set_param := m4 \<rparr>" by (rule that [OF r4(3)])
    ultimately show ?thesis by simp
  qed
  show "set_param s' k =
           (if (\<exists>v. set_param s k = Some v \<and> field k n = v \<and> set_time_start s < get_time_end s)
            then None else set_param s k)"
    by (cases k; simp add: r1(1,2,4,5) r2(1,2,4,5) r3(1,2,4,5) r4(1,2,4,5) split: option.splits)
  show "field k n' = (case set_param s k of None \<Rightarrow> field k n | Some v \<Rightarrow> v)"
    by (cases k; simp add: r1(1,2,4,5) r2(1,2,4,5) r3(1,2,4,5) r4(1,2,4,5) split: option.splits)
  show "c' = (c \<or> (\<exists>k v. set_param s k = Some v
                          \<and> \<not> (field k n = v \<and> set_time_start s < get_time_end s)))"
    unfolding ex_param [of "\<lambda>k. \<exists>v. set_param s k = Some v
                          \<and> \<not> (field k n = v \<and> set_time_start s < get_time_end s)"]
    by (simp add: r1(1,2,4,5,6) r2(1,2,4,5,6) r3(1,2,4,5,6) r4(1,2,4,5,6))
qed

subsection \<open>The example inputs, evaluated\<close>

lemma login_example:
  "\<not> login s \<Longrightarrow> login_session (Login_Response example_url) s =
     (Inr (), s\<lparr> token := Some (user s, password s), trace := trace s @ [Login_post],
                 plant_id := ''4711'', login := True \<rparr>)"
  by (simp add: login_session_def example_url_def ARISTON_URL_def index_def)

lemma online_eq:
  "online =
     \<lparr> ariston_data = Some example_data, errors = 0, get_time_start = 1000, get_time_end = 1010,
       init_available = True, login = True, password = ''secret'', plant_id = ''4711'',
       retry_timeout = 45, set_param = Map.empty, set_retry = 0,
       set_max_retries = 1, set_new_data = False, set_scheduled = False,
       set_time_start = 0, set_time_end = 0, token = Some (''user'', ''secret''), user = ''user'',
       trace = [Track_command 45, Login_post, Get_plant_data, Service_update], set_timers = 0 \<rparr>"
  by (simp add: online_def command_def poll_fetch_def get_http_data_def login_example init_def
      poll_ok_def on_poll_success_def available_def dispatcher_send_def const_defs)



lemma two_failures_eq:
  "two_failures =
     \<lparr> ariston_data = None, errors = 2, get_time_start = 0, get_time_end = 0,
       init_available = False, login = False, password = ''secret'', plant_id = [],
       retry_timeout = 45, set_param = Map.empty, set_retry = 0,
       set_max_retries = 1, set_new_data = False, set_scheduled = False,
       set_time_start = 0, set_time_end = 0, token = Some (''user'', ''secret''), user = ''user'',
       trace = [Track_command 45, Login_post, Track_command 45, Login_post], set_timers = 0 \<rparr>"
  by (simp add: two_failures_def command_def poll_fetch_def get_http_data_def login_session_def
      init_def poll_timeout_def on_poll_error_def available_def is_AristonError_def const_defs)

lemma first_success_eq:
  "command poll_ok two_failures =
     (Inr (),
      \<lparr> ariston_data = Some example_data, errors = 0, get_time_start = 1000, get_time_end = 1010,
       init_available = True, login = True, password = ''secret'', plant_id = ''4711'',
       retry_timeout = 80, set_param = Map.empty, set_retry = 0,
       set_max_retries = 1, set_new_data = False, set_scheduled = False,
       set_time_start = 0, set_time_end = 0, token = Some (''user'', ''secret''), user = ''user'',
       trace = [Track_command 45, Login_post, Track_command 45, Login_post,
                Track_command 80, Login_post, Get_plant_data, Service_update],
       set_timers = 0 \<rparr>)"
  by (simp add: two_failures_eq command_def poll_fetch_def get_http_data_def login_example
      poll_ok_def on_poll_success_def available_def dispatcher_send_def const_defs)

lemma nearly_offline_fetch_eq:
  "poll_fetch poll_timeout nearly_offline =
     (Inl CommError,
      online\<lparr> errors := 4, retry_timeout := 80, get_time_start := 2000,
              trace := trace online @ [Track_command 80, Get_plant_data] \<rparr>)"
  by (simp add: nearly_offline_def online_eq poll_fetch_def get_http_data_def
      login_session_def poll_timeout_def const_defs)

lemma online_fetch_eq:
  "poll_fetch poll_timeout online =
     (Inl CommError,
      online\<lparr> get_time_start := 2000,
              trace := trace online @ [Track_command 45, Get_plant_data] \<rparr>)"
  by (simp add: online_eq poll_fetch_def get_http_data_def
      login_session_def poll_timeout_def const_defs)

lemma nearly_offline_timeout_eq:
  "command poll_timeout nearly_offline =
     (Inl CommError,
      online\<lparr> errors := 5, login := False, retry_timeout := 80, get_time_start := 2000,
              trace := trace online @ [Track_command 80, Get_plant_data, Service_update] \<rparr>)"
  by (simp add: command_def nearly_offline_fetch_eq is_AristonError_def)
     (simp add: online_eq on_poll_error_def available_def dispatcher_send_def const_defs)

lemma offline_eq:
  "offline =
     online\<lparr> errors := 5, login := False, retry_timeout := 80, get_time_start := 2000,
             trace := trace online @ [Track_command 80, Get_plant_data, Service_update] \<rparr>"
  by (simp add: offline_def nearly_offline_timeout_eq)

lemma offline_timeout_eq:
  "command poll_timeout offline =
     (Inl CommError,
      online\<lparr> errors := 6, login := False, retry_timeout := 80, get_time_start := 2000,
              trace := trace online @ [Track_command 80, Get_plant_data, Service_update,
                                       Track_command 80, Login_post] \<rparr>)"
  by (simp add: offline_eq online_eq command_def poll_fetch_def get_http_data_def
      login_session_def poll_timeout_def on_poll_error_def available_def is_AristonError_def
      dispatcher_send_def const_defs)

lemma online_timeout_eq:
  "command poll_timeout online =
     (Inl CommError,
      online\<lparr> errors := 1, get_time_start := 2000,
              trace := trace online @ [Track_command 45, Get_plant_data] \<rparr>)"
  by (simp add: command_def online_fetch_eq is_AristonError_def)
     (simp add: online_eq on_poll_error_def available_def dispatcher_send_def const_defs)

lemma online_two_errors_ok_eq:
  "command poll_ok (online\<lparr> errors := 2 \<rparr>) =
     (Inr (), online\<lparr> retry_timeout := 80,
                      trace := trace online @ [Track_command 80, Get_plant_data] \<rparr>)"
  by (simp add: online_eq command_def poll_fetch_def get_http_data_def
      login_session_def poll_ok_def on_poll_success_def available_def
      dispatcher_send_def const_defs)

subsection \<open>Splitting strings, and \<open>int\<close> on one or two digits\<close>

lemma split_no_sep:
  "c \<notin> set xs \<Longrightarrow> split c xs = [xs]"
  by (induction xs) auto

lemma split_append_sep:
  "c \<notin> set xs \<Longrightarrow> split c (xs @ c # ys) = xs # split c ys"
  by (induction xs) auto

lemma is_digit_chars:
  "is_digit c \<Longrightarrow>
     c \<noteq> CHR '' '' \<and> c \<noteq> CHR '':'' \<and> \<not> is_space c \<and> c \<noteq> CHR ''-'' \<and> c \<noteq> CHR ''+''"
  by (auto simp add: is_digit_def is_space_def)

lemma py_int_one_digit:
  "is_digit a \<Longrightarrow> py_int [a] = Inr (int (decimal [a]))"
  using is_digit_chars [of a]
  by (simp add: py_int_def strip_def unsigned_def after_def decimal_def)

lemma py_int_two_digits:
  "is_digit a \<Longrightarrow> is_digit b \<Longrightarrow> py_int [a, b] = Inr (int (decimal [a, b]))"
  using is_digit_chars [of a] is_digit_chars [of b]
  by (simp add: py_int_def strip_def unsigned_def after_def decimal_def)

lemma py_int_hour:
  assumes "h \<noteq> []" and "length h \<le> 2" and "\<forall>c\<in>set h. is_digit c"
  shows "py_int h = Inr (int (decimal h))"
proof (cases h)
  case Nil
  with assms(1) show ?thesis by simp
next
  case (Cons a t)
  note h = Cons
  show ?thesis
  proof (cases t)
    case Nil
    with h assms(3) show ?thesis by (simp add: py_int_one_digit)
  next
    case (Cons b u)
    with h assms(2) have "u = []" by simp
    with h Cons assms(3) show ?thesis by (simp add: py_int_two_digits)
  qed
qed

lemma time_24h_pm:
  assumes "CHR '' '' \<notin> set t" and "t \<noteq> ''12:00''"
    and "t = h @ CHR '':'' # mm" and "CHR '':'' \<notin> set h" and "CHR '':'' \<notin> set mm"
    and "py_int h = Inr n"
  shows "time_24h (t @ '' PM'') = str_int (n + 12) @ mm"
proof -
  have "split (CHR '' '') (t @ '' PM'') = [t, ''PM'']"
    using split_append_sep [OF assms(1), of "''PM''"] by simp
  moreover have "split (CHR '':'') t = [h, mm]"
    using split_append_sep [OF assms(4), of mm] assms(3,5) by (simp add: split_no_sep)
  ultimately show ?thesis
    using assms(2,6)
    by (simp add: time_24h_def convert_12h_def index_def after_def)
qed

subsection \<open>The write path\<close>

lemma write_view_retry_view:
  "write_view a = write_view b \<Longrightarrow> retry_view a = retry_view b \<and> transmits a = transmits b"
  by (simp add: write_view_def retry_view_def)

lemma login_session_data:
  "ariston_data (snd (login_session reply s)) = ariston_data s"
  by (simp add: login_session_def Let_def split: login_reply.splits sum.splits)

lemma login_session_passes:
  "fst (login_session reply s) = Inr () \<Longrightarrow> login (snd (login_session reply s))"
  by (auto simp add: login_session_def Let_def split: login_reply.splits sum.splits if_splits)

lemma login_session_update:
  "login_session reply (s\<lparr> set_param := m, set_new_data := b \<rparr>) =
     (fst (login_session reply s), (snd (login_session reply s))\<lparr> set_param := m, set_new_data := b \<rparr>)"
  "login_session reply (s\<lparr> set_retry := n \<rparr>) =
     (fst (login_session reply s), (snd (login_session reply s))\<lparr> set_retry := n \<rparr>)"
  "login_session reply (s\<lparr> set_timers := n \<rparr>) =
     (fst (login_session reply s), (snd (login_session reply s))\<lparr> set_timers := n \<rparr>)"
  by (simp_all add: login_session_def Let_def split: login_reply.splits sum.splits)

lemma checks_only_set_param:
  "\<exists>m. check_mode ext pl s = s\<lparr> set_param := m \<rparr>"
  "\<exists>m. check_dhw_temperature ext pl s = s\<lparr> set_param := m \<rparr>"
  "\<exists>m. check_ch_temperature ext pl s = s\<lparr> set_param := m \<rparr>"
  "\<exists>m. check_ch_mode ext pl s = s\<lparr> set_param := m \<rparr>"
proof -
  have e: "\<exists>m. s = s\<lparr> set_param := m \<rparr>"
    by (rule exI [of _ "set_param s"]) simp
  show "\<exists>m. check_mode ext pl s = s\<lparr> set_param := m \<rparr>"
    using e by (auto simp add: check_mode_def Let_def split: option.splits)
  show "\<exists>m. check_dhw_temperature ext pl s = s\<lparr> set_param := m \<rparr>"
    using e by (auto simp add: check_dhw_temperature_def Let_def split: option.splits)
  show "\<exists>m. check_ch_temperature ext pl s = s\<lparr> set_param := m \<rparr>"
    using e by (auto simp add: check_ch_temperature_def Let_def split: option.splits)
  show "\<exists>m. check_ch_mode ext pl s = s\<lparr> set_param := m \<rparr>"
    using e by (auto simp add: check_ch_mode_def Let_def split: option.splits)
qed

lemma transmit_views:
  "retry_view (snd (transmit io n o' s)) = retry_view s"
  "transmits (snd (transmit io n o' s)) = transmits s + 1"
  by (simp_all add: transmit_def Let_def retry_view_def transmits_def
      split: http_reply.splits json.splits)

lemma reconcile_params_retry_view:
  assumes "reconcile_params (s, n, False) = (s', n', c')"
  shows "retry_view s' = retry_view (s\<lparr> set_param := set_param s' \<rparr>)"
    and "transmits s' = transmits s"
    and "\<not> c' \<Longrightarrow> set_param s' = Map.empty"
proof -
  note r = reconcile_params_result [OF assms]
  obtain m where m: "s' = s\<lparr> set_param := m \<rparr>"
    by (rule that [OF r(1)])
  show "retry_view s' = retry_view (s\<lparr> set_param := set_param s' \<rparr>)"
    by (simp add: m retry_view_def)
  show "transmits s' = transmits s"
    by (simp add: m transmits_def)
  show "set_param s' = Map.empty" if "\<not> c'"
  proof
    fix k
    show "set_param s' k = None"
      using r(4) that by (cases "set_param s k") (auto simp add: r(2))
  qed
qed

lemma reconcile_param_lacks:
  "lacks (fst (snd (reconcile_param k x))) = lacks (fst (snd x))"
  by (cases x; cases k) (simp_all add: reconcile_param_def split: option.splits)

lemma reconcile_block_present:
  "\<not> lacks (fst (snd x)) (entry_of k) \<Longrightarrow>
     reconcile_block k (None, x) = (None, reconcile_param k x)"
  by (cases x) (simp add: reconcile_block_def)

text \<open>On a copy that holds the four entries no read raises, and the blocks are the four
  comparisons.\<close>

lemma reconcile_blocks_complete:
  assumes "complete n"
  shows "reconcile_blocks (s, n, c) = (None, reconcile_params (s, n, c))"
proof -
  have l: "\<not> lacks n (entry_of k)" for k
    using assms by (cases k) (simp_all add: complete_def)
  let ?x1 = "reconcile_param PARAM_MODE (s, n, c)"
  let ?x2 = "reconcile_param PARAM_DHW_SET_TEMPERATURE ?x1"
  let ?x3 = "reconcile_param PARAM_CH_SET_TEMPERATURE ?x2"
  have 1: "reconcile_block PARAM_MODE (None, s, n, c) = (None, ?x1)"
    by (rule reconcile_block_present) (use l [of PARAM_MODE] in simp)
  have 2: "reconcile_block PARAM_DHW_SET_TEMPERATURE (None, ?x1) = (None, ?x2)"
    by (rule reconcile_block_present)
       (use l [of PARAM_DHW_SET_TEMPERATURE] in \<open>simp add: reconcile_param_lacks\<close>)
  have 3: "reconcile_block PARAM_CH_SET_TEMPERATURE (None, ?x2) = (None, ?x3)"
    by (rule reconcile_block_present)
       (use l [of PARAM_CH_SET_TEMPERATURE] in \<open>simp add: reconcile_param_lacks\<close>)
  have 4: "reconcile_block PARAM_CH_MODE (None, ?x3) = (None, reconcile_param PARAM_CH_MODE ?x3)"
    by (rule reconcile_block_present)
       (use l [of PARAM_CH_MODE] in \<open>simp add: reconcile_param_lacks\<close>)
  show ?thesis
    by (simp only: reconcile_blocks_def reconcile_params_def 1 2 3 4)
qed

text \<open>What a ready write does to the bookkeeping when the document is complete: nothing
  changed and nothing pending, or one request after \<open>retry_or_give_up\<close>.\<close>

lemma write_changes_outcome:
  assumes "has_complete_data s"
  shows "(retry_view (snd (write_changes io s)) = retry_view (s\<lparr> set_param := Map.empty \<rparr>)
            \<and> transmits (snd (write_changes io s)) = transmits s)
       \<or> (\<exists>m. retry_view (snd (write_changes io s)) = retry_view (retry_or_give_up (s\<lparr> set_param := m \<rparr>))
            \<and> transmits (snd (write_changes io s)) = transmits s + 1)"
proof -
  obtain d where d: "ariston_data s = Some d" and cd: "complete d"
    using assms by (auto simp add: has_complete_data_def split: option.splits)
  let ?old = "d\<lparr> zone_derogaUntil := Some (set_deroga_time s) \<rparr>"
  have z: "\<not> lacks d E_zone"
    using cd by (simp add: complete_def)
  have co: "complete ?old"
    using cd by (simp add: complete_def)
  obtain s1 nv dc where rc: "reconcile_params (s, ?old, False) = (s1, nv, dc)"
    by (metis prod_cases3)
  have rb: "reconcile_blocks (s, ?old, False) = (None, s1, nv, dc)"
    using reconcile_blocks_complete [OF co, of s False] rc by simp
  note v = reconcile_params_retry_view [OF rc]
  show ?thesis
  proof (cases dc)
    case False
    then have "snd (write_changes io s) = s1"
      by (simp add: write_changes_def d z rb)
    moreover have "retry_view s1 = retry_view (s\<lparr> set_param := Map.empty \<rparr>)"
      using v(1) v(3) [OF False] by simp
    ultimately show ?thesis
      using v(2) by simp
  next
    case True
    then have w: "snd (write_changes io s) = snd (transmit io nv ?old (retry_or_give_up s1))"
      by (simp add: write_changes_def d z rb)
    have "retry_view (retry_or_give_up s1) = retry_view (retry_or_give_up (s\<lparr> set_param := set_param s1 \<rparr>))"
      using v(1) by (simp add: retry_or_give_up_def retry_view_def)
    moreover have "transmits (retry_or_give_up s1) = transmits s"
      using v(2) by (simp add: retry_or_give_up_def transmits_def)
    ultimately show ?thesis
      by (auto simp add: w transmit_views)
  qed
qed

lemma actual_set_http_data_outcome:
  assumes "fst (login_session (set_login io) s) = Inr ()" and "has_complete_data s"
  shows "(retry_view (snd (actual_set_http_data io s)) = retry_view ((mark_attempt s)\<lparr> set_param := Map.empty \<rparr>)
            \<and> transmits (snd (actual_set_http_data io s)) = transmits s)
       \<or> (\<exists>m. retry_view (snd (actual_set_http_data io s))
                 = retry_view (retry_or_give_up ((mark_attempt s)\<lparr> set_param := m \<rparr>))
            \<and> transmits (snd (actual_set_http_data io s)) \<le> transmits s + 1)"
proof -
  obtain s' where l: "login_session (set_login io) s = (Inr (), s')"
    using assms(1) by (metis prod.collapse)
  have s': "s' = snd (login_session (set_login io) s)"
    using l by simp
  have w: "write_view s' = write_view s"
    unfolding s' by (rule login_session_views)
  then have rv: "retry_view s' = retry_view s" and tr: "transmits s' = transmits s"
    using write_view_retry_view by blast+
  have d: "has_complete_data (mark_attempt s')"
    using assms(2) login_session_data [of "set_login io" s] s'
    by (simp add: mark_attempt_def has_complete_data_def)
  have mv: "retry_view ((mark_attempt s')\<lparr> set_param := m \<rparr>) = retry_view ((mark_attempt s)\<lparr> set_param := m \<rparr>)" for m
    using rv by (simp add: mark_attempt_def retry_view_def)
  have mg: "retry_view (retry_or_give_up ((mark_attempt s')\<lparr> set_param := m \<rparr>))
          = retry_view (retry_or_give_up ((mark_attempt s)\<lparr> set_param := m \<rparr>))" for m
    using rv by (simp add: mark_attempt_def retry_or_give_up_def retry_view_def)
  have mt: "transmits (mark_attempt s') = transmits s"
    using tr by (simp add: mark_attempt_def transmits_def)
  show ?thesis
  proof (cases "ready (mark_attempt s')")
    case True
    then have a: "snd (actual_set_http_data io s) = snd (write_changes io (mark_attempt s'))"
      by (simp add: actual_set_http_data_def l)
    show ?thesis
      using write_changes_outcome [OF d, of io] mv mg mt
      by (auto simp add: a)
  next
    case False
    then have a: "snd (actual_set_http_data io s) = retry_or_give_up (mark_attempt s')"
      by (simp add: actual_set_http_data_def l)
    have "retry_view (retry_or_give_up (mark_attempt s'))
        = retry_view (retry_or_give_up ((mark_attempt s)\<lparr> set_param := set_param (mark_attempt s') \<rparr>))"
      using mg [of "set_param (mark_attempt s')"] by simp
    moreover have "transmits (retry_or_give_up (mark_attempt s')) = transmits s"
      using mt by (simp add: retry_or_give_up_def transmits_def)
    ultimately show ?thesis
      unfolding a by auto
  qed
qed


lemma checks_commute_set_retry:
  "check_mode ext pl (s\<lparr> set_retry := n \<rparr>) = (check_mode ext pl s)\<lparr> set_retry := n \<rparr>"
  "check_dhw_temperature ext pl (s\<lparr> set_retry := n \<rparr>)
     = (check_dhw_temperature ext pl s)\<lparr> set_retry := n \<rparr>"
  "check_ch_temperature ext pl (s\<lparr> set_retry := n \<rparr>)
     = (check_ch_temperature ext pl s)\<lparr> set_retry := n \<rparr>"
  "check_ch_mode ext pl (s\<lparr> set_retry := n \<rparr>) = (check_ch_mode ext pl s)\<lparr> set_retry := n \<rparr>"
  by (simp_all add: check_mode_def check_dhw_temperature_def check_ch_temperature_def
      check_ch_mode_def Let_def split: option.splits)

lemma accept_parameters_facts:
  "\<exists>m. accept_parameters ext pl s = s\<lparr> set_param := m \<rparr>"
  "accept_parameters ext pl (s\<lparr> set_retry := n \<rparr>) = (accept_parameters ext pl s)\<lparr> set_retry := n \<rparr>"
proof -
  obtain m1 where 1: "check_mode ext pl s = s\<lparr> set_param := m1 \<rparr>"
    using checks_only_set_param(1) by blast
  obtain m2 where 2: "check_dhw_temperature ext pl (s\<lparr> set_param := m1 \<rparr>) = s\<lparr> set_param := m1 \<rparr>\<lparr> set_param := m2 \<rparr>"
    using checks_only_set_param(2) by blast
  obtain m3 where 3: "check_ch_temperature ext pl (s\<lparr> set_param := m2 \<rparr>) = s\<lparr> set_param := m2 \<rparr>\<lparr> set_param := m3 \<rparr>"
    using checks_only_set_param(3) by blast
  obtain m4 where 4: "check_ch_mode ext pl (s\<lparr> set_param := m3 \<rparr>) = s\<lparr> set_param := m3 \<rparr>\<lparr> set_param := m4 \<rparr>"
    using checks_only_set_param(4) by blast
  have "accept_parameters ext pl s = s\<lparr> set_param := m4 \<rparr>"
    using 1 2 3 4 by (simp add: accept_parameters_def)
  then show "\<exists>m. accept_parameters ext pl s = s\<lparr> set_param := m \<rparr>"
    by blast
  show "accept_parameters ext pl (s\<lparr> set_retry := n \<rparr>) = (accept_parameters ext pl s)\<lparr> set_retry := n \<rparr>"
    by (simp add: accept_parameters_def checks_commute_set_retry)
qed

lemma retry_or_give_up_initial:
  assumes "set_retry s = 0"
  shows "set_retry (retry_or_give_up s) = set_timers (retry_or_give_up s) - set_timers s"
    and "set_timers s \<le> set_timers (retry_or_give_up s)"
    and "set_new_data (retry_or_give_up s) = set_new_data s"
  using assms by (simp_all add: retry_or_give_up_def)

lemma mark_attempt_initial:
  "set_new_data t \<Longrightarrow> mark_attempt (t\<lparr> set_retry := n \<rparr>) = mark_attempt t"
  "set_new_data t \<Longrightarrow> set_retry (mark_attempt t) = 0"
  "set_new_data t \<Longrightarrow> \<not> set_new_data (mark_attempt t)"
  "set_timers (mark_attempt t) = set_timers t"
  by (cases t; simp add: mark_attempt_def)+

lemma set_http_data_unfold:
  assumes "ariston_data s \<noteq> None"
  shows "\<exists>m. (\<forall>n. set_http_data ext pl io (s\<lparr> set_retry := n \<rparr>)
               = actual_set_http_data io ((s\<lparr> set_param := m, set_new_data := True \<rparr>)\<lparr> set_retry := n \<rparr>))
           \<and> set_http_data ext pl io s = actual_set_http_data io (s\<lparr> set_param := m, set_new_data := True \<rparr>)"
proof -
  obtain m where m: "accept_parameters ext pl s = s\<lparr> set_param := m \<rparr>"
    using accept_parameters_facts(1) by blast
  have eq: "s\<lparr> set_param := m, set_retry := n, set_new_data := True \<rparr>
          = (s\<lparr> set_param := m, set_new_data := True \<rparr>)\<lparr> set_retry := n \<rparr>" for n
    by (cases s) simp
  have "set_http_data ext pl io (s\<lparr> set_retry := n \<rparr>)
          = actual_set_http_data io (s\<lparr> set_param := m, set_retry := n, set_new_data := True \<rparr>)" for n
    using assms by (simp add: set_http_data_def accept_parameters_facts(2) m)
  then have "set_http_data ext pl io (s\<lparr> set_retry := n \<rparr>)
          = actual_set_http_data io ((s\<lparr> set_param := m, set_new_data := True \<rparr>)\<lparr> set_retry := n \<rparr>)" for n
    by (simp only: eq)
  moreover have "set_http_data ext pl io s = actual_set_http_data io (s\<lparr> set_param := m, set_new_data := True \<rparr>)"
    using assms by (simp add: set_http_data_def m)
  ultimately show ?thesis by blast
qed


lemma actual_set_http_data_login_fails:
  assumes "fst (login_session (set_login io) u) = Inl e"
  shows "actual_set_http_data io u = (Inl e, snd (login_session (set_login io) u))"
proof -
  obtain t where "login_session (set_login io) u = (Inl e, t)"
    using assms by (metis prod.collapse)
  then show ?thesis
    by (simp add: actual_set_http_data_def)
qed

lemma actual_set_http_data_initial_any_retry:
  assumes "set_new_data u" and "fst (login_session (set_login io) u) = Inr ()"
  shows "actual_set_http_data io (u\<lparr> set_retry := n \<rparr>) = actual_set_http_data io u"
proof -
  obtain t where l: "login_session (set_login io) u = (Inr (), t)"
    using assms(2) by (metis prod.collapse)
  have ln: "login_session (set_login io) (u\<lparr> set_retry := n \<rparr>) = (Inr (), t\<lparr> set_retry := n \<rparr>)"
    by (simp add: login_session_update(2) l)
  have "retry_view t = retry_view u"
    using login_session_views(1) [of "set_login io" u] write_view_retry_view [of t u] l by simp
  then have "set_new_data t"
    using assms(1) by (simp add: retry_view_def)
  then have m: "mark_attempt (t\<lparr> set_retry := n \<rparr>) = mark_attempt t"
    by (rule mark_attempt_initial(1))
  show ?thesis
    by (simp only: actual_set_http_data_def l ln m prod.case sum.case)
qed

lemma actual_set_http_data_initial_counts:
  assumes "set_new_data u" and "fst (login_session (set_login io) u) = Inr ()"
    and "has_complete_data u"
  shows "\<not> set_new_data (snd (actual_set_http_data io u))"
    and "set_timers u \<le> set_timers (snd (actual_set_http_data io u))"
    and "set_retry (snd (actual_set_http_data io u))
           = set_timers (snd (actual_set_http_data io u)) - set_timers u"
proof -
  let ?s' = "snd (actual_set_http_data io u)"
  have "\<not> set_new_data ?s' \<and> set_timers u \<le> set_timers ?s'
        \<and> set_retry ?s' = set_timers ?s' - set_timers u"
    using actual_set_http_data_outcome [OF assms(2,3)]
  proof (elim disjE exE conjE)
    assume "retry_view ?s' = retry_view ((mark_attempt u)\<lparr> set_param := Map.empty \<rparr>)"
    then show ?thesis
      using mark_attempt_initial(2,3) [OF assms(1)] mark_attempt_initial(4) [of u]
      by (simp add: retry_view_def)
  next
    fix p
    let ?v = "(mark_attempt u)\<lparr> set_param := p \<rparr>"
    assume a: "retry_view ?s' = retry_view (retry_or_give_up ?v)"
    have v: "set_retry ?v = 0" and "set_timers ?v = set_timers u" and "\<not> set_new_data ?v"
      using mark_attempt_initial(2,3) [OF assms(1)] mark_attempt_initial(4) [of u] by simp_all
    with retry_or_give_up_initial [OF v] a show ?thesis
      by (simp add: retry_view_def)
  qed
  then show "\<not> set_new_data ?s'" and "set_timers u \<le> set_timers ?s'"
    and "set_retry ?s' = set_timers ?s' - set_timers u"
    by simp_all
qed

text \<open>
  A request made while a document exists, whose login step returns: the retry counter is
  reset before it is read, so the request does the same whatever the counter was; and on
  a complete document the counter is afterwards the number of timers that the request
  armed.
\<close>

lemma set_http_data_initial_any_retry:
  assumes "ariston_data s \<noteq> None" and "fst (login_session (set_login io) s) = Inr ()"
  shows "set_http_data ext pl io (s\<lparr> set_retry := n \<rparr>) = set_http_data ext pl io s"
proof -
  obtain m where
    hn: "\<And>n. set_http_data ext pl io (s\<lparr> set_retry := n \<rparr>)
           = actual_set_http_data io ((s\<lparr> set_param := m, set_new_data := True \<rparr>)\<lparr> set_retry := n \<rparr>)"
    and h: "set_http_data ext pl io s
           = actual_set_http_data io (s\<lparr> set_param := m, set_new_data := True \<rparr>)"
    using set_http_data_unfold [OF assms(1), of ext pl io] by blast
  let ?u = "s\<lparr> set_param := m, set_new_data := True \<rparr>"
  have new: "set_new_data ?u"
    by simp
  have pass: "fst (login_session (set_login io) ?u) = Inr ()"
    using assms(2) by (simp only: login_session_update(1) fst_conv)
  show ?thesis
    by (simp only: hn h actual_set_http_data_initial_any_retry [OF new pass])
qed

lemma set_http_data_initial_counts:
  assumes "has_complete_data s" and "fst (login_session (set_login io) s) = Inr ()"
  shows "\<not> set_new_data (snd (set_http_data ext pl io s))"
    and "set_timers s \<le> set_timers (snd (set_http_data ext pl io s))"
    and "set_retry (snd (set_http_data ext pl io s))
           = set_timers (snd (set_http_data ext pl io s)) - set_timers s"
proof -
  have some: "ariston_data s \<noteq> None"
    using assms(1) by (auto simp add: has_complete_data_def split: option.splits)
  obtain m where h: "set_http_data ext pl io s
           = actual_set_http_data io (s\<lparr> set_param := m, set_new_data := True \<rparr>)"
    using set_http_data_unfold [OF some, of ext pl io] by blast
  let ?u = "s\<lparr> set_param := m, set_new_data := True \<rparr>"
  have new: "set_new_data ?u" and data: "has_complete_data ?u"
    and tim: "set_timers ?u = set_timers s"
    using assms(1) by (simp_all add: has_complete_data_def)
  have pass: "fst (login_session (set_login io) ?u) = Inr ()"
    using assms(2) by (simp only: login_session_update(1) fst_conv)
  note c = actual_set_http_data_initial_counts [OF new pass data, folded h, unfolded tim]
  show "\<not> set_new_data (snd (set_http_data ext pl io s))"
    and "set_timers s \<le> set_timers (snd (set_http_data ext pl io s))"
    and "set_retry (snd (set_http_data ext pl io s))
           = set_timers (snd (set_http_data ext pl io s)) - set_timers s"
    by (rule c)+
qed

lemma run_retries_no_timer:
  "set_timers s = 0 \<Longrightarrow> run_retries schedule s = s"
  by (cases schedule) auto

lemma give_up_empties:
  "m(PARAM_MODE := None, PARAM_DHW_SET_TEMPERATURE := None,
     PARAM_CH_SET_TEMPERATURE := None, PARAM_CH_MODE := None) = Map.empty"
proof
  fix k
  show "(m(PARAM_MODE := None, PARAM_DHW_SET_TEMPERATURE := None,
     PARAM_CH_SET_TEMPERATURE := None, PARAM_CH_MODE := None)) k = None"
    by (cases k) simp_all
qed

lemma retry_or_give_up_view:
  "retry_view (retry_or_give_up s) =
     (if set_scheduled s then retry_view s
      else if set_retry s < set_max_retries s
      then (set_param s, set_retry s + 1, set_max_retries s, set_new_data s, True, set_timers s + 1)
      else (Map.empty, set_retry s, set_max_retries s, set_new_data s, False, set_timers s))"
  by (simp add: retry_or_give_up_def retry_view_def give_up_empties)

lemma mark_attempt_view:
  "retry_view ((mark_attempt s)\<lparr> set_param := p \<rparr>) =
     (if set_new_data s then (p, 0, set_max_retries s, False, set_scheduled s, set_timers s)
      else (p, set_retry s, set_max_retries s, False, False, set_timers s))"
  by (simp add: mark_attempt_def retry_view_def)

lemma mark_attempt_fields:
  "set_scheduled (mark_attempt s) = (set_new_data s \<and> set_scheduled s)"
  "set_retry (mark_attempt s) = (if set_new_data s then 0 else set_retry s)"
  "set_max_retries (mark_attempt s) = set_max_retries s"
  "set_timers (mark_attempt s) = set_timers s"
  "set_new_data (mark_attempt s) = False"
  by (simp_all add: mark_attempt_def)

text \<open>The first reconciliation of a request, from a state with no retry outstanding.\<close>

lemma first_attempt_view:
  assumes "set_new_data u" and "\<not> set_scheduled u" and "set_timers u = 0"
    and "set_max_retries u = 1"
    and "fst (login_session (set_login io) u) = Inr ()" and "has_complete_data u"
  shows "(retry_view (snd (actual_set_http_data io u)) = (Map.empty, 0, 1, False, False, 0)
            \<and> transmits (snd (actual_set_http_data io u)) = transmits u)
       \<or> (\<exists>p. retry_view (snd (actual_set_http_data io u)) = (p, 1, 1, False, True, 1)
            \<and> transmits (snd (actual_set_http_data io u)) \<le> transmits u + 1)"
  using actual_set_http_data_outcome [OF assms(5,6)] assms(1-4)
  by (auto simp add: retry_or_give_up_view mark_attempt_view mark_attempt_fields)

text \<open>The scheduled reconciliation after it, with the one retry used.\<close>

lemma second_attempt_view:
  assumes "retry_view v = (p, 1, 1, False, True, 0)"
    and "fst (login_session (set_login io) v) = Inr ()" and "has_complete_data v"
  shows "retry_view (snd (actual_set_http_data io v)) = (Map.empty, 1, 1, False, False, 0)
       \<and> transmits (snd (actual_set_http_data io v)) \<le> transmits v + 1"
proof -
  have f: "\<not> set_new_data v" "set_retry v = 1" "set_max_retries v = 1" "set_timers v = 0"
    using assms(1) by (simp_all add: retry_view_def)
  show ?thesis
    using actual_set_http_data_outcome [OF assms(2,3)] f
    by (auto simp add: retry_or_give_up_view mark_attempt_view mark_attempt_fields)
qed

subsection \<open>The example requests, evaluated\<close>

lemmas write_defs =
  set_http_data_def accept_parameters_def check_mode_def check_dhw_temperature_def
  check_ch_temperature_def check_ch_mode_def actual_set_http_data_def login_session_def
  mark_attempt_def ready_def available_def write_changes_def reconcile_blocks_def
  reconcile_block_def reconcile_param_def retry_or_give_up_def transmit_def
  set_deroga_time_def Let_def

lemma time_24h_example:
  "time_24h ''12:30 PM'' = ''2430''"
  by (simp add: time_24h_def convert_12h_def index_def after_def py_int_def strip_def
      is_space_def unsigned_def is_digit_def digit_value_def str_int_def str_nat.simps
      digit_char_def)

lemma lower_examples:
  "lower ''Winter'' = ''winter''" "lower ''summer'' = ''summer''"
  by (simp_all add: lower_def lower_char_def)

lemma first_attempt_eq:
  "set_http_data example_extern want_winter write_timeout online =
     (Inl CommError,
      online\<lparr> set_param := [PARAM_MODE \<mapsto> 1], set_retry := 1, set_scheduled := True,
              set_timers := 1, set_time_start := 1100,
              trace := trace online @
                [Track_set 160,
                 Set_plant_data (example_data\<lparr> mode := 1, zone_derogaUntil := Some ''2430'' \<rparr>)
                                (example_data\<lparr> zone_derogaUntil := Some ''2430'' \<rparr>)] \<rparr>)"
  by (simp add: online_eq write_defs example_extern_def want_winter_def write_timeout_def
      lower_examples example_data_def time_24h_example const_defs)


lemma first_attempt_state:
  "first_attempt =
      online\<lparr> set_param := [PARAM_MODE \<mapsto> 1], set_retry := 1, set_scheduled := True,
              set_timers := 1, set_time_start := 1100,
              trace := trace online @
                [Track_set 160,
                 Set_plant_data (example_data\<lparr> mode := 1, zone_derogaUntil := Some ''2430'' \<rparr>)
                                (example_data\<lparr> zone_derogaUntil := Some ''2430'' \<rparr>)] \<rparr>"
  by (simp add: first_attempt_def first_attempt_eq)

lemma logged_out_eq:
  "logged_out =
     first_attempt\<lparr> login := False, errors := 1, get_time_start := 2000,
                     trace := trace first_attempt @ [Track_command 45, Get_plant_data] \<rparr>"
  by (simp add: logged_out_def first_attempt_state online_eq command_def poll_fetch_def
      get_http_data_def login_session_def poll_500_def on_poll_error_def available_def
      is_AristonError_def const_defs)

lemma retry_after_logout_eq:
  "run_retries [([poll_500], write_timeout)] first_attempt =
     logged_out\<lparr> set_timers := 0, trace := trace logged_out @ [Login_post] \<rparr>"
proof -
  have "run_retries [([poll_500], write_timeout)] first_attempt
      = fire_retry write_timeout logged_out"
    by (simp add: first_attempt_state logged_out_def)
  also have "\<dots> = logged_out\<lparr> set_timers := 0, trace := trace logged_out @ [Login_post] \<rparr>"
    by (simp add: fire_retry_def logged_out_eq first_attempt_state online_eq
        actual_set_http_data_def login_session_def write_timeout_def)
  finally show ?thesis .
qed

lemma request_logged_out_eq:
  "set_http_data example_extern Map.empty write_timeout logged_out =
     (Inl CommError,
      logged_out\<lparr> set_new_data := True, trace := trace logged_out @ [Login_post] \<rparr>)"
  by (simp add: logged_out_eq first_attempt_state online_eq set_http_data_def
      accept_parameters_def check_mode_def check_dhw_temperature_def check_ch_temperature_def
      check_ch_mode_def actual_set_http_data_def login_session_def write_timeout_def)

lemma written_eq:
  "set_http_data example_extern want_winter write_ok online =
     (Inr (),
      online\<lparr> ariston_data := Some (example_data\<lparr> mode := 1 \<rparr>),
              set_param := [PARAM_MODE \<mapsto> 1], set_retry := 1, set_scheduled := True,
              set_timers := 1, set_time_start := 1100, set_time_end := 1105,
              trace := trace online @
                [Track_set 160,
                 Set_plant_data (example_data\<lparr> mode := 1, zone_derogaUntil := Some ''2430'' \<rparr>)
                                (example_data\<lparr> zone_derogaUntil := Some ''2430'' \<rparr>)] \<rparr>)"
  by (simp add: online_eq write_defs example_extern_def want_winter_def write_ok_def
      lower_examples example_data_def time_24h_example const_defs)

lemma read_back_eq:
  "read_back =
     (snd (set_http_data example_extern want_winter write_ok online))
       \<lparr> get_time_start := 1200, get_time_end := 1210,
         trace := trace (snd (set_http_data example_extern want_winter write_ok online))
                    @ [Track_command 45, Get_plant_data] \<rparr>"
  unfolding read_back_def written_def written_eq
  by (simp add: online_eq command_def poll_fetch_def
      get_http_data_def login_session_def poll_winter_def on_poll_success_def available_def
      const_defs)


lemma written_state:
  "written =
      online\<lparr> ariston_data := Some (example_data\<lparr> mode := 1 \<rparr>),
              set_param := [PARAM_MODE \<mapsto> 1], set_retry := 1, set_scheduled := True,
              set_timers := 1, set_time_start := 1100, set_time_end := 1105,
              trace := trace online @
                [Track_set 160,
                 Set_plant_data (example_data\<lparr> mode := 1, zone_derogaUntil := Some ''2430'' \<rparr>)
                                (example_data\<lparr> zone_derogaUntil := Some ''2430'' \<rparr>)] \<rparr>"
  by (simp add: written_def written_eq)

lemma read_back_state:
  "read_back =
     written\<lparr> get_time_start := 1200, get_time_end := 1210,
               trace := trace written @ [Track_command 45, Get_plant_data] \<rparr>"
  using read_back_eq by (simp add: written_def)

lemma stale_timer_eq:
  "set_http_data example_extern want_winter write_ok read_back =
     (Inr (), read_back\<lparr> set_param := Map.empty, set_retry := 0 \<rparr>)"
  by (simp add: read_back_state written_state online_eq write_defs example_extern_def
      want_winter_def write_ok_def lower_examples example_data_def time_24h_example const_defs)

lemma stale_timer_state:
  "stale_timer = read_back\<lparr> set_param := Map.empty, set_retry := 0 \<rparr>"
  by (simp add: stale_timer_def stale_timer_eq)

lemma summer_attempt_eq:
  "set_http_data example_extern want_summer write_timeout stale_timer =
     (Inl CommError,
      stale_timer\<lparr> set_param := [PARAM_MODE \<mapsto> 0], set_time_start := 1100,
                   trace := trace stale_timer @
                     [Set_plant_data (example_data\<lparr> zone_derogaUntil := Some ''2430'' \<rparr>)
                        (example_data\<lparr> mode := 1, zone_derogaUntil := Some ''2430'' \<rparr>)] \<rparr>)"
  by (simp add: stale_timer_state read_back_state written_state online_eq write_defs
      example_extern_def want_summer_def write_timeout_def lower_examples example_data_def
      time_24h_example const_defs)

lemma summer_attempt_state:
  "summer_attempt =
      stale_timer\<lparr> set_param := [PARAM_MODE \<mapsto> 0], set_time_start := 1100,
                   trace := trace stale_timer @
                     [Set_plant_data (example_data\<lparr> zone_derogaUntil := Some ''2430'' \<rparr>)
                        (example_data\<lparr> mode := 1, zone_derogaUntil := Some ''2430'' \<rparr>)] \<rparr>"
  by (simp add: summer_attempt_def summer_attempt_eq)

lemma summer_retry_state:
  "summer_retry =
      summer_attempt\<lparr> set_retry := 1,
                   trace := trace summer_attempt @
                     [Track_set 160,
                      Set_plant_data (example_data\<lparr> zone_derogaUntil := Some ''2430'' \<rparr>)
                        (example_data\<lparr> mode := 1, zone_derogaUntil := Some ''2430'' \<rparr>)] \<rparr>"
  by (simp add: summer_retry_def fire_retry_def summer_attempt_state stale_timer_state
      read_back_state written_state online_eq write_defs write_timeout_def example_data_def
      time_24h_example const_defs)

lemma summer_given_up_state:
  "summer_given_up =
      summer_retry\<lparr> set_param := Map.empty, set_scheduled := False, set_timers := 0,
                   trace := trace summer_retry @
                     [Set_plant_data (example_data\<lparr> zone_derogaUntil := Some ''2430'' \<rparr>)
                        (example_data\<lparr> mode := 1, zone_derogaUntil := Some ''2430'' \<rparr>)] \<rparr>"
  by (simp add: summer_given_up_def fire_retry_def summer_retry_state summer_attempt_state
      stale_timer_state read_back_state written_state online_eq write_defs write_timeout_def
      example_data_def time_24h_example const_defs)

lemma summer_run_eq:
  "run_retries [([], write_timeout), ([], write_timeout)] summer_attempt = summer_given_up"
proof -
  have 1: "set_timers summer_attempt \<noteq> 0"
    by (simp add: summer_attempt_state stale_timer_state read_back_state written_state)
  have 2: "set_timers summer_retry \<noteq> 0"
    by (simp add: summer_retry_state summer_attempt_state stale_timer_state read_back_state
        written_state)
  show ?thesis
    using 1 2 by (simp add: summer_retry_def [symmetric] summer_given_up_def [symmetric])
qed

lemma first_retry_eq:
  "run_retries [([], write_timeout)] first_attempt =
     first_attempt\<lparr> set_param := Map.empty, set_scheduled := False, set_timers := 0,
                     trace := trace first_attempt @
                       [Set_plant_data (example_data\<lparr> mode := 1, zone_derogaUntil := Some ''2430'' \<rparr>)
                          (example_data\<lparr> zone_derogaUntil := Some ''2430'' \<rparr>)] \<rparr>"
  by (simp add: fire_retry_def first_attempt_state online_eq write_defs write_timeout_def
      example_data_def time_24h_example const_defs)

lemma second_request_eq:
  "set_http_data example_extern Map.empty write_timeout first_attempt =
     (Inl CommError,
      first_attempt\<lparr> set_retry := 0,
                     trace := trace first_attempt @
                       [Set_plant_data (example_data\<lparr> mode := 1, zone_derogaUntil := Some ''2430'' \<rparr>)
                          (example_data\<lparr> zone_derogaUntil := Some ''2430'' \<rparr>)] \<rparr>)"
  by (simp add: first_attempt_state online_eq write_defs write_timeout_def
      example_data_def time_24h_example const_defs)

lemma no_mode_eq:
  "snd (command poll_no_mode first_attempt) =
     first_attempt\<lparr> ariston_data := Some (example_data\<lparr> lacks := (\<lambda>e. e = E_mode) \<rparr>),
                     get_time_start := 1200, get_time_end := 1210,
                     trace := trace first_attempt @ [Track_command 45, Get_plant_data] \<rparr>"
  by (simp add: first_attempt_state online_eq command_def poll_fetch_def get_http_data_def
      login_session_def poll_no_mode_def on_poll_success_def available_def const_defs)

lemma retry_without_mode_eq:
  "run_retries [([poll_no_mode], write_timeout)] first_attempt =
     (snd (command poll_no_mode first_attempt))\<lparr> set_scheduled := False, set_timers := 0 \<rparr>"
proof -
  have "run_retries [([poll_no_mode], write_timeout)] first_attempt
      = fire_retry write_timeout (snd (command poll_no_mode first_attempt))"
    by (simp add: first_attempt_state)
  also have "\<dots> = (snd (command poll_no_mode first_attempt))\<lparr> set_scheduled := False, set_timers := 0 \<rparr>"
    unfolding no_mode_eq
    by (simp add: fire_retry_def first_attempt_state online_eq write_defs write_timeout_def
        example_data_def time_24h_example const_defs)
  finally show ?thesis .
qed

lemma failed_request_state:
  "failed_request =
     logged_out\<lparr> set_new_data := True, trace := trace logged_out @ [Login_post] \<rparr>"
  by (simp add: failed_request_def request_logged_out_eq)

lemma stuck_state:
  "stuck =
     failed_request\<lparr> token := Some (''user'', ''secret''), plant_id := ''4711'', login := True,
                      set_new_data := False, set_retry := 0, set_timers := 0,
                      set_time_start := 1300,
                      trace := trace failed_request @
                        [Login_post,
                         Set_plant_data (example_data\<lparr> mode := 1, zone_derogaUntil := Some ''2430'' \<rparr>)
                           (example_data\<lparr> zone_derogaUntil := Some ''2430'' \<rparr>)] \<rparr>"
  by (simp add: stuck_def fire_retry_def failed_request_state logged_out_eq first_attempt_state
      online_eq actual_set_http_data_def login_example mark_attempt_def ready_def available_def
      write_changes_def reconcile_blocks_def reconcile_block_def reconcile_param_def
      retry_or_give_up_def transmit_def set_deroga_time_def Let_def write_relogin_def
      example_data_def time_24h_example const_defs)

subsection \<open>A tick that succeeds\<close>

lemma get_http_data_success:
  assumes "fst (get_http_data io u) = Inr ()" and "get_now io - set_time_start u > TIMER_SET_LOCK"
  shows "\<exists>d. get_reply io = Response 200 (JSON d) \<and> ariston_data (snd (get_http_data io u)) = d"
proof -
  obtain r t where l: "login_session (get_login io) u = (r, t)"
    by (metis surj_pair)
  have "write_view t = write_view u"
    using login_session_views(1) [of "get_login io" u] l by simp
  then have st: "set_time_start t = set_time_start u"
    by (simp add: write_view_def)
  show ?thesis
    using assms st
    by (auto simp add: get_http_data_def l Let_def
        split: sum.splits http_reply.splits json.splits if_splits)
qed

lemma successful_tick_is_a_fetch:
  assumes "fst (command io s) = Inr ()" and "get_now io - set_time_start s > TIMER_SET_LOCK"
  shows "\<exists>d. get_reply io = Response 200 (JSON d) \<and> ariston_data (snd (command io s)) = d"
proof -
  define u where "u = s\<lparr> retry_timeout := (if errors s \<ge> MAX_ERRORS_TIMER_EXTEND
                                     then HTTP_RETRY_INTERVAL_DOWN else HTTP_RETRY_INTERVAL),
                       trace := trace s @ [Track_command (if errors s \<ge> MAX_ERRORS_TIMER_EXTEND
                                     then HTTP_RETRY_INTERVAL_DOWN else HTTP_RETRY_INTERVAL)] \<rparr>"
  have p: "poll_fetch io s = get_http_data io u"
    by (simp add: poll_fetch_def Let_def u_def)
  have st: "set_time_start u = set_time_start s"
    by (simp add: u_def)
  obtain r t where g: "get_http_data io u = (r, t)"
    by (metis surj_pair)
  have r: "r = Inr ()"
    using assms(1) by (simp add: command_def p g split: sum.splits if_splits)
  then have c: "snd (command io s) = on_poll_success t"
    by (simp add: command_def p g)
  have "ariston_data (on_poll_success t) = ariston_data t"
    by (simp add: on_poll_success_def Let_def dispatcher_send_def)
  with get_http_data_success [of io u] assms(2) g r st c show ?thesis
    by simp
qed

section \<open>Properties\<close>

text \<open>
  C1. In every state the availability accessor is true exactly when the one-time latch
  \<open>init_available\<close> is set and the error counter is at most \<open>MAX_ERRORS\<close>, which is 4. With
  the latch unset, as the constructor leaves it, the accessor is false for every error
  count; and a poll tick sets the latch when it returns without an error, and never
  otherwise (more than \<open>TIMER_SET_LOCK\<close> seconds after the last write such a tick has
  fetched the document, by \<open>successful_tick_is_a_fetch\<close>).
\<close>

theorem available_iff_latch_and_errors:
  "available s = (init_available s \<and> errors s \<le> 4)
   \<and> available (s\<lparr> init_available := False, errors := e \<rparr>) = False
   \<and> available ((init u p r)\<lparr> errors := e \<rparr>) = False
   \<and> init_available (snd (command io s)) = (init_available s \<or> fst (command io s) = Inr ())"
proof -
  obtain r1 s1 where f: "poll_fetch io s = (r1, s1)"
    by (metis surj_pair)
  have "health_view s1 = health_view s"
    using poll_fetch_views(2) [of io s] f by simp
  then have i: "init_available s1 = init_available s"
    by (simp add: health_view_def)
  have "init_available (snd (command io s)) = (init_available s \<or> fst (command io s) = Inr ())"
    using i by (simp add: command_def f on_poll_error_events(3) on_poll_success_events(3)
        split: sum.splits)
  then show ?thesis
    by (auto simp add: available_def MAX_ERRORS_def init_def)
qed

theorem available_iff_latch_and_errors_witness:
  "available ((init ''u'' ''p'' 1)\<lparr> init_available := True, errors := 4 \<rparr>) = True
   \<and> available ((init ''u'' ''p'' 1)\<lparr> init_available := True, errors := 5 \<rparr>) = False
   \<and> available ((init ''u'' ''p'' 1)\<lparr> errors := 0 \<rparr>) = False
   \<and> \<not> init_available two_failures \<and> init_available (snd (command poll_ok two_failures))"
  using available_iff_latch_and_errors
          [of "(init ''u'' ''p'' 1)\<lparr> init_available := True, errors := 4 \<rparr>" 0 "''u''" "''p''" 1
              poll_ok]
        available_iff_latch_and_errors
          [of "(init ''u'' ''p'' 1)\<lparr> init_available := True, errors := 5 \<rparr>" 0 "''u''" "''p''" 1
              poll_ok]
        available_iff_latch_and_errors [of two_failures 0 "''u''" "''p''" 1 poll_ok]
  unfolding first_success_eq
  by (simp add: init_def two_failures_eq)

text \<open>
  C8. Login in a session that is logged in already does nothing: no request is made (the
  effects are the same) and the whole state, so the token, the plant id and the flag, is
  the one before; a second call gives the same again.
\<close>

theorem login_session_logged_in_noop:
  assumes "login s"
  shows "login_session reply s = (Inr (), s)
       \<and> login_session reply' (snd (login_session reply s)) = login_session reply s"
  using assms by (simp add: login_session_def)

theorem login_session_logged_in_noop_witness:
  "login online
   \<and> login_session Login_ReadTimeout online = (Inr (), online)
   \<and> login_session Login_Exception (snd (login_session Login_ReadTimeout online)) = (Inr (), online)"
proof -
  have l: "login online"
    by (simp add: online_eq)
  from login_session_logged_in_noop [OF l, of Login_ReadTimeout Login_Exception] l
  show ?thesis by auto
qed

text \<open>
  C4. With no document fetched yet (the cached data is the empty dictionary), every call
  of \<open>_set_http_data\<close> raises \<open>CommError\<close> and leaves the state as it was: no request among
  the effects, the pending values untouched.
\<close>

theorem set_http_data_without_snapshot:
  assumes "ariston_data s = None"
  shows "set_http_data ext parameter_list io s = (Inl CommError, s)"
  using assms by (simp add: set_http_data_def)

theorem set_http_data_without_snapshot_witness:
  "ariston_data (init ''user'' ''secret'' 1) = None
   \<and> set_http_data example_extern want_winter write_timeout (init ''user'' ''secret'' 1)
       = (Inl CommError, init ''user'' ''secret'' 1)"
  using set_http_data_without_snapshot
    [of "init ''user'' ''secret'' 1" example_extern want_winter write_timeout]
  by (simp add: init_def)



text \<open>
  C7, as the code has it. A poll tick sends the availability signal exactly once when the
  availability accessor changes its value over the tick, and not at all when it does not:
  a counted error that takes availability from true to false sends one signal; an error
  while unavailable sends none; a tick that succeeds while unavailable sends one signal
  and sets the error counter to 0; a tick that succeeds with the counter at most
  \<open>MAX_ERRORS\<close> and the latch \<open>init_available\<close> already set sends none. (Before the first
  success the latch is unset, so the first success sends a signal whatever the counter.)
\<close>

theorem poll_tick_updates:
  assumes "command io s = (r, s')"
  shows "updates_sent s' = updates_sent s + (if available s' \<noteq> available s then 1 else 0)
       \<and> ((\<exists>e. r = Inl e \<and> is_AristonError e) \<and> available s \<and> \<not> available s'
            \<longrightarrow> updates_sent s' = updates_sent s + 1)
       \<and> ((\<exists>e. r = Inl e) \<and> \<not> available s
            \<longrightarrow> \<not> available s' \<and> updates_sent s' = updates_sent s)
       \<and> (r = Inr () \<and> \<not> available s
            \<longrightarrow> updates_sent s' = updates_sent s + 1 \<and> errors s' = 0 \<and> available s')
       \<and> (r = Inr () \<and> init_available s \<and> errors s \<le> MAX_ERRORS
            \<longrightarrow> updates_sent s' = updates_sent s \<and> errors s' = 0 \<and> available s')"
proof -
  obtain r1 s1 where p: "poll_fetch io s = (r1, s1)"
    by (metis surj_pair)
  have h: "health_view s1 = health_view s"
    using poll_fetch_views(2) [of io s] p by simp
  then have a: "available s1 = available s"
    by (rule available_health)
  have u: "updates_sent s1 = updates_sent s" and e: "errors s1 = errors s"
    and i: "init_available s1 = init_available s"
    using h by (simp_all add: health_view_def)
  show ?thesis
  proof (cases r1)
    case (Inl e)
    show ?thesis
    proof (cases "is_AristonError e")
      case True
      then have "r = Inl e" and "s' = on_poll_error s1"
        using assms p Inl by (simp_all add: command_def)
      then show ?thesis
        using a u e i on_poll_error_events [of s1]
        by (auto simp add: available_def)
    next
      case False
      then have "r = Inl e" and "s' = s1"
        using assms p Inl by (simp_all add: command_def)
      then show ?thesis
        using a u False by auto
    qed
  next
    case (Inr v)
    then have "r = Inr ()" and "s' = on_poll_success s1"
      using assms p by (simp_all add: command_def)
    then show ?thesis
      using a u e i on_poll_success_events [of s1]
      by (auto simp add: available_def)
  qed
qed

theorem poll_tick_updates_witness:
  "updates_sent (snd (command poll_timeout nearly_offline)) = updates_sent nearly_offline + 1
   \<and> updates_sent (snd (command poll_timeout offline)) = updates_sent offline
   \<and> updates_sent (snd (command poll_ok two_failures)) = updates_sent two_failures + 1
   \<and> errors (snd (command poll_ok two_failures)) = 0
   \<and> updates_sent (snd (command poll_ok (online\<lparr> errors := 2 \<rparr>)))
       = updates_sent (online\<lparr> errors := 2 \<rparr>)"
  using poll_tick_updates [OF nearly_offline_timeout_eq]
        poll_tick_updates [OF offline_timeout_eq]
        poll_tick_updates [OF first_success_eq]
        poll_tick_updates [OF online_two_errors_ok_eq]
  unfolding nearly_offline_timeout_eq offline_timeout_eq first_success_eq online_two_errors_ok_eq
  by (simp add: nearly_offline_def offline_eq online_eq two_failures_eq available_def
      is_AristonError_def MAX_ERRORS_def updates_sent_def)

text \<open>
  The claim C7 ends: a success with two prior failures and the counter still within
  \<open>MAX_ERRORS\<close> emits no event. A new checker whose first two ticks fail and whose third
  succeeds has the counter at 2 before the third tick, and that tick sends the signal.
\<close>

theorem first_success_after_two_failures_sends_update:
  "errors two_failures = 2 \<and> errors two_failures \<le> MAX_ERRORS
   \<and> updates_sent two_failures = 0
   \<and> fst (command poll_ok two_failures) = Inr ()
   \<and> errors (snd (command poll_ok two_failures)) = 0
   \<and> updates_sent (snd (command poll_ok two_failures)) = 1"
  unfolding first_success_eq
  by (simp add: two_failures_eq updates_sent_def MAX_ERRORS_def)

text \<open>
  C9. When the fetch of a tick raises an \<open>AristonError\<close>, the tick ends in the handler. If
  counting the error takes availability from true to false, the handler clears \<open>login\<close>
  and then sends the signal: its result is \<open>dispatcher_send\<close> applied to the state with the
  error counted and \<open>login\<close> cleared. Otherwise the handler only counts the error: \<open>login\<close>
  and the effects stay as the fetch left them.
\<close>

theorem poll_error_flip_clears_login:
  assumes "poll_fetch io s0 = (Inl e, s)" and "is_AristonError e"
  shows "command io s0 = (Inl e, on_poll_error s)
       \<and> (available s \<and> \<not> available (s\<lparr> errors := errors s + 1 \<rparr>)
            \<longrightarrow> on_poll_error s = dispatcher_send (s\<lparr> errors := errors s + 1, login := False \<rparr>)
              \<and> login (on_poll_error s) = False
              \<and> trace (on_poll_error s) = trace s @ [Service_update])
       \<and> (\<not> (available s \<and> \<not> available (s\<lparr> errors := errors s + 1 \<rparr>))
            \<longrightarrow> on_poll_error s = s\<lparr> errors := errors s + 1 \<rparr>
              \<and> login (on_poll_error s) = login s
              \<and> trace (on_poll_error s) = trace s)"
  using assms
  by (simp add: command_def on_poll_error_def Let_def dispatcher_send_def)

theorem poll_error_flip_clears_login_witness:
  "login nearly_offline
   \<and> login (snd (poll_fetch poll_timeout nearly_offline))
   \<and> \<not> login (snd (command poll_timeout nearly_offline))
   \<and> trace (snd (command poll_timeout nearly_offline))
       = trace (snd (poll_fetch poll_timeout nearly_offline)) @ [Service_update]
   \<and> login (snd (command poll_timeout online))
   \<and> trace (snd (command poll_timeout online)) = trace (snd (poll_fetch poll_timeout online))"
proof -
  let ?s = "online\<lparr> errors := 4, retry_timeout := 80, get_time_start := 2000,
                    trace := trace online @ [Track_command 80, Get_plant_data] \<rparr>"
  let ?t = "online\<lparr> get_time_start := 2000,
                    trace := trace online @ [Track_command 45, Get_plant_data] \<rparr>"
  have ari: "is_AristonError CommError"
    by (simp add: is_AristonError_def)
  note flip = poll_error_flip_clears_login [OF nearly_offline_fetch_eq ari]
  note stay = poll_error_flip_clears_login [OF online_fetch_eq ari]
  have 1: "available ?s \<and> \<not> available (?s\<lparr> errors := errors ?s + 1 \<rparr>)"
    by (simp add: online_eq available_def MAX_ERRORS_def)
  have 2: "\<not> (available ?t \<and> \<not> available (?t\<lparr> errors := errors ?t + 1 \<rparr>))"
    by (simp add: online_eq available_def MAX_ERRORS_def)
  have 3: "login nearly_offline" and 4: "login ?s" and 5: "login ?t"
    by (simp_all add: nearly_offline_def online_eq)
  have c1: "snd (command poll_timeout nearly_offline) = on_poll_error ?s"
    using flip [THEN conjunct1] by simp
  have c2: "snd (command poll_timeout online) = on_poll_error ?t"
    using stay [THEN conjunct1] by simp
  note f = flip [THEN conjunct2, THEN conjunct1, rule_format, OF 1]
  note g = stay [THEN conjunct2, THEN conjunct2, rule_format, OF 2]
  have "\<not> login (on_poll_error ?s)"
    using f by blast
  moreover have "trace (on_poll_error ?s) = trace ?s @ [Service_update]"
    using f by blast
  moreover have "login (on_poll_error ?t)"
    using g 5 by metis
  moreover have "trace (on_poll_error ?t) = trace ?t"
    using g by blast
  ultimately show ?thesis
    using 3 4 by (simp add: c1 c2 nearly_offline_fetch_eq online_fetch_eq)
qed

text \<open>
  C5. The claim says that a string with no AM/PM suffix is returned unchanged when it is
  a colon-separated hour and minute, and names \<open>18:30\<close>. The code reads the second piece
  of the string split at spaces before anything else; a string with no space has no
  second piece, the \<open>IndexError\<close> is caught by the bare \<open>except\<close>, and the result is the
  default: every string with no space, \<open>18:30\<close> among them, gives \<open>00:00\<close>. The branch that
  checks hours and minutes is reached only by a string with a space whose second piece
  is neither \<open>AM\<close> nor \<open>PM\<close>.
\<close>

theorem deroga_without_space_is_default:
  assumes "CHR '' '' \<notin> set time_str_12h"
  shows "time_24h time_str_12h = ''00:00''"
  using assms
  by (simp add: time_24h_def convert_12h_def split_no_sep index_def after_def DEFAULT_TIME_def)

theorem deroga_without_space_is_default_witness:
  "CHR '' '' \<notin> set ''18:30'' \<and> time_24h ''18:30'' = ''00:00'' \<and> time_24h ''18:30'' \<noteq> ''18:30''
   \<and> time_24h ''18:30 h'' = ''18:30 h''"
proof -
  have n: "CHR '' '' \<notin> set ''18:30''"
    by simp
  have "time_24h ''18:30 h'' = ''18:30 h''"
    by (simp add: time_24h_def convert_12h_def index_def after_def DEFAULT_TIME_def)
  with n deroga_without_space_is_default [OF n] show ?thesis
    by simp
qed

text \<open>
  C6. For a string \<open>H:MM PM\<close>, with \<open>H\<close> one or two decimal digits and \<open>MM\<close> free of spaces
  and colons, other than \<open>12:00 PM\<close>, the conversion returns the decimal string of \<open>H + 12\<close>
  followed at once by \<open>MM\<close>, with no colon; \<open>12:00 PM\<close> gives \<open>12:00\<close> and \<open>12:00 AM\<close> gives
  \<open>00:00\<close>.
\<close>

theorem deroga_pm_concatenates:
  assumes "h \<noteq> []" and "length h \<le> 2" and "\<forall>c\<in>set h. is_digit c"
    and "CHR '' '' \<notin> set mm" and "CHR '':'' \<notin> set mm"
    and "h @ '':'' @ mm \<noteq> ''12:00''"
  shows "time_24h (h @ '':'' @ mm @ '' PM'') = str_int (int (decimal h) + 12) @ mm
       \<and> time_24h ''12:00 PM'' = ''12:00''
       \<and> time_24h ''12:00 AM'' = ''00:00''"
proof -
  have d: "CHR '' '' \<notin> set h" and c: "CHR '':'' \<notin> set h"
    using assms(3) is_digit_chars by blast+
  have "CHR '' '' \<notin> set (h @ CHR '':'' # mm)"
    using d assms(4) by simp
  from time_24h_pm [OF this _ refl c assms(5) py_int_hour [OF assms(1,2,3)]] assms(6)
  have "time_24h (h @ '':'' @ mm @ '' PM'') = str_int (int (decimal h) + 12) @ mm"
    by simp
  moreover have "time_24h ''12:00 PM'' = ''12:00''" and "time_24h ''12:00 AM'' = ''00:00''"
    by (simp_all add: time_24h_def convert_12h_def index_def after_def)
  ultimately show ?thesis by simp
qed

theorem deroga_pm_concatenates_witness:
  "time_24h ''12:30 PM'' = ''2430'' \<and> time_24h ''1:15 PM'' = ''1315''
   \<and> time_24h ''12:00 PM'' = ''12:00'' \<and> time_24h ''12:00 AM'' = ''00:00''"
proof -
  have a: "\<forall>c\<in>set ''12''. is_digit c" and b: "\<forall>c\<in>set ''1''. is_digit c"
    by (simp_all add: is_digit_def)
  have "time_24h (''12'' @ '':'' @ ''30'' @ '' PM'') = str_int (int (decimal ''12'') + 12) @ ''30''
      \<and> time_24h ''12:00 PM'' = ''12:00'' \<and> time_24h ''12:00 AM'' = ''00:00''"
    by (rule deroga_pm_concatenates [OF _ _ a]) simp_all
  moreover
  have "time_24h (''1'' @ '':'' @ ''15'' @ '' PM'') = str_int (int (decimal ''1'') + 12) @ ''15''
      \<and> time_24h ''12:00 PM'' = ''12:00'' \<and> time_24h ''12:00 AM'' = ''00:00''"
    by (rule deroga_pm_concatenates [OF _ _ b]) simp_all
  moreover have "str_int (int (decimal ''12'') + 12) = ''24''"
    and "str_int (int (decimal ''1'') + 12) = ''13''"
    by (simp_all add: decimal_def digit_value_def str_int_def str_nat.simps digit_char_def)
  ultimately show ?thesis by simp
qed

text \<open>
  C3, as the code has it. With \<open>set_max_retries = 1\<close>, in a state whose document is
  complete and in which no retry of an earlier request is outstanding (no armed write
  timer, \<open>set_scheduled\<close> clear), take one call of \<open>_set_http_data\<close> whose login step does
  not raise, then any poll ticks, then the firing of the write timer if the call armed
  one, where again the login step does not raise and the document is complete. Then at
  most two write requests are made (the initial one and one scheduled retry), whatever
  they return; afterwards nothing is pending, no write timer is armed and \<open>set_scheduled\<close>
  is clear. The run of the timers is given one firing or more; it needs one.
\<close>

theorem single_request_retry_bound:
  assumes "set_max_retries s = 1" and "set_timers s = 0" and "\<not> set_scheduled s"
    and "has_complete_data s"
    and "fst (login_session (set_login io) s) = Inr ()"
    and "set_timers (snd (set_http_data ext parameter_list io s)) \<noteq> 0 \<longrightarrow>
           fst (login_session (set_login io')
                 (run_polls polls (snd (set_http_data ext parameter_list io s)))) = Inr ()
         \<and> has_complete_data (run_polls polls (snd (set_http_data ext parameter_list io s)))"
  shows "transmits (run_retries ((polls, io') # rest) (snd (set_http_data ext parameter_list io s)))
           \<le> transmits s + 2
       \<and> set_param (run_retries ((polls, io') # rest) (snd (set_http_data ext parameter_list io s)))
           = Map.empty
       \<and> set_timers (run_retries ((polls, io') # rest) (snd (set_http_data ext parameter_list io s)))
           = 0
       \<and> \<not> set_scheduled
             (run_retries ((polls, io') # rest) (snd (set_http_data ext parameter_list io s)))"
proof -
  let ?s1 = "snd (set_http_data ext parameter_list io s)"
  have some: "ariston_data s \<noteq> None"
    using assms(4) by (auto simp add: has_complete_data_def split: option.splits)
  obtain m where h: "set_http_data ext parameter_list io s
           = actual_set_http_data io (s\<lparr> set_param := m, set_new_data := True \<rparr>)"
    using set_http_data_unfold [OF some, of ext parameter_list io] by blast
  let ?u = "s\<lparr> set_param := m, set_new_data := True \<rparr>"
  have fu: "fst (login_session (set_login io) ?u) = Inr ()"
    using assms(5) by (simp only: login_session_update(1) fst_conv)
  have u: "set_new_data ?u" "\<not> set_scheduled ?u" "set_timers ?u = 0" "set_max_retries ?u = 1"
    "has_complete_data ?u" "transmits ?u = transmits s"
    using assms(1-4) by (simp_all add: transmits_def has_complete_data_def)
  from first_attempt_view [OF u(1-4) fu u(5), folded h, unfolded u(6)]
  show ?thesis
  proof (elim disjE exE conjE)
    assume v: "retry_view ?s1 = (Map.empty, 0, 1, False, False, 0)"
      and t: "transmits ?s1 = transmits s"
    then have "set_timers ?s1 = 0"
      by (simp add: retry_view_def)
    then have "run_retries ((polls, io') # rest) ?s1 = ?s1"
      by (rule run_retries_no_timer)
    then show ?thesis
      using v t by (simp add: retry_view_def)
  next
    fix p
    assume v: "retry_view ?s1 = (p, 1, 1, False, True, 1)"
      and t: "transmits ?s1 \<le> transmits s + 1"
    let ?s2 = "run_polls polls ?s1"
    let ?v = "?s2\<lparr> set_timers := set_timers ?s2 - 1 \<rparr>"
    let ?s3 = "snd (actual_set_http_data io' ?v)"
    have armed: "set_timers ?s1 \<noteq> 0"
      using v by (simp add: retry_view_def)
    have w: "retry_view ?s2 = retry_view ?s1" and t2: "transmits ?s2 = transmits ?s1"
      using run_polls_write_view [of polls ?s1] write_view_retry_view by blast+
    have vv: "retry_view ?v = (p, 1, 1, False, True, 0)"
      using w v by (simp add: retry_view_def)
    have tv: "transmits ?v = transmits ?s1"
      using t2 by (simp add: transmits_def)
    have pass: "fst (login_session (set_login io') ?v) = Inr ()"
      using assms(6) armed by (simp only: login_session_update(3) fst_conv) simp
    have data: "has_complete_data ?v"
      using assms(6) armed by (simp add: has_complete_data_def)
    note b = second_attempt_view [OF vv pass data, unfolded tv]
    have "run_retries ((polls, io') # rest) ?s1 = run_retries rest ?s3"
      using armed by (simp add: fire_retry_def)
    moreover have "set_timers ?s3 = 0"
      using b by (simp add: retry_view_def)
    ultimately have "run_retries ((polls, io') # rest) ?s1 = ?s3"
      by (simp add: run_retries_no_timer)
    then show ?thesis
      using b t by (simp add: retry_view_def)
  qed
qed

theorem single_request_retry_bound_witness:
  "transmits (run_retries [([], write_timeout)] first_attempt) \<le> transmits online + 2
   \<and> transmits (run_retries [([], write_timeout)] first_attempt) = 2
   \<and> set_param (run_retries [([], write_timeout)] first_attempt) = Map.empty
   \<and> set_timers (run_retries [([], write_timeout)] first_attempt) = 0
   \<and> \<not> set_scheduled (run_retries [([], write_timeout)] first_attempt)"
proof -
  have a: "set_max_retries online = 1" "set_timers online = 0" "\<not> set_scheduled online"
    "has_complete_data online"
    by (simp_all add: online_eq has_complete_data_def complete_def example_data_def)
  have b: "fst (login_session (set_login write_timeout) online) = Inr ()"
    by (simp add: login_session_def online_eq)
  have c: "set_timers (snd (set_http_data example_extern want_winter write_timeout online)) \<noteq> 0
      \<longrightarrow> fst (login_session (set_login write_timeout)
                (run_polls [] (snd (set_http_data example_extern want_winter write_timeout online))))
            = Inr ()
        \<and> has_complete_data
            (run_polls [] (snd (set_http_data example_extern want_winter write_timeout online)))"
    unfolding first_attempt_eq
    by (simp add: login_session_def online_eq has_complete_data_def complete_def
        example_data_def)
  have d: "transmits (run_retries [([], write_timeout)] first_attempt) = 2"
    unfolding first_retry_eq
    by (simp add: first_attempt_state online_eq transmits_def)
  from single_request_retry_bound [OF a b c, of "[]"] d show ?thesis
    by (simp add: first_attempt_def)
qed

text \<open>
  The claim C3 fails in three ways. After the request for \<open>winter\<close> and its failed write, a
  tick is answered with status 500, which clears \<open>login\<close>; the login of the retry times
  out, the retry ends before its bookkeeping, and the value stays pending with no timer
  armed, after one write request. After the same request and a tick that reads a document
  with no entry \<open>mode\<close>, the retry raises \<open>KeyError\<close> where it reads that entry, and the
  value stays pending with no timer armed, after one write request. And from a state with
  nothing pending in which the timer of an earlier request is still armed, the request
  for \<open>summer\<close> is written three times, each write failing: at once, when the old timer
  fires, and when the timer armed then fires.
\<close>

theorem retry_bound_counterexamples:
  "set_max_retries online = 1 \<and> set_param online = Map.empty
   \<and> transmits (run_retries [([poll_500], write_timeout)] first_attempt) = transmits online + 1
   \<and> set_param (run_retries [([poll_500], write_timeout)] first_attempt) PARAM_MODE = Some 1
   \<and> set_timers (run_retries [([poll_500], write_timeout)] first_attempt) = 0
   \<and> transmits (run_retries [([poll_no_mode], write_timeout)] first_attempt) = transmits online + 1
   \<and> set_param (run_retries [([poll_no_mode], write_timeout)] first_attempt) PARAM_MODE = Some 1
   \<and> set_timers (run_retries [([poll_no_mode], write_timeout)] first_attempt) = 0
   \<and> set_max_retries stale_timer = 1 \<and> set_param stale_timer = Map.empty
   \<and> transmits (run_retries [([], write_timeout), ([], write_timeout)] summer_attempt)
       = transmits stale_timer + 3"
  unfolding retry_after_logout_eq retry_without_mode_eq no_mode_eq summer_run_eq
  by (simp add: summer_given_up_state summer_retry_state summer_attempt_state stale_timer_state
      read_back_state written_state logged_out_eq first_attempt_state online_eq transmits_def)

text \<open>
  C10. Every call of \<open>_set_http_data\<close> made while a document exists is to mark the attempt
  as initial and to run \<open>_actual_set_http_data\<close>, which resets the retry counter to 0, also
  when the map of parameters is empty. The code does so when the login step returns: after
  the request for \<open>winter\<close> and its failed write the counter is 1, and a call with an empty
  map resets it to 0. It does not when the login step raises, since \<open>_login_session\<close> is
  called before the marks of lines 274-280 are read: after the tick answered with status
  500 the session is logged out and the counter is 1; a call with an empty map whose login
  times out raises \<open>CommError\<close>, leaves the counter at 1 and leaves \<open>set_new_data\<close> set, with
  the timer of the first request still armed. When that timer fires and its login
  succeeds, the firing is taken for an initial call, so \<open>set_scheduled\<close> is not cleared, no
  timer is armed and nothing is given up: the value stays pending with \<open>set_scheduled\<close>
  set and no timer.
\<close>

theorem request_with_failed_login_keeps_retry_counter:
  "set_retry first_attempt = 1
   \<and> set_retry (snd (set_http_data example_extern Map.empty write_timeout first_attempt)) = 0
   \<and> ariston_data logged_out \<noteq> None \<and> set_retry logged_out = 1
   \<and> fst (set_http_data example_extern Map.empty write_timeout logged_out) = Inl CommError
   \<and> set_retry (snd (set_http_data example_extern Map.empty write_timeout logged_out)) = 1
   \<and> set_new_data (snd (set_http_data example_extern Map.empty write_timeout logged_out))
   \<and> set_timers failed_request = 1 \<and> set_scheduled failed_request
   \<and> set_timers stuck = 0 \<and> set_scheduled stuck \<and> \<not> set_new_data stuck
   \<and> set_param stuck PARAM_MODE = Some 1"
  unfolding request_logged_out_eq second_request_eq
  by (simp add: stuck_state failed_request_state logged_out_eq first_attempt_state online_eq)

end
